theory Spec2Isabelle
  imports Complex_Main "HOL-Library.Multiset" "HOL-Library.Char_ord" "HOL-Library.List_Lexorder"
begin

section \<open>Python values\<close>

text \<open>
  The repository keeps every record as a dictionary with optional keys. A record type
  here has one field per key the modelled functions read or write, of type
  \<open>'a option\<close>: \<open>None\<close> is an absent key. Python floats are modelled as exact reals,
  Python integers as \<open>int\<close>, Python strings as \<open>string\<close> compared lexicographically
  by character code, as Python compares them.
\<close>

datatype py_error =
  KeyError | TypeError | ValueError | AttributeError | IndexError | ZeroDivisionError

definition get_or :: "'a option \<Rightarrow> 'a \<Rightarrow> 'a" where
  \<comment> \<open>\<open>d.get(key, default)\<close> on an optional field\<close>
  "get_or field dflt = (case field of None \<Rightarrow> dflt | Some v \<Rightarrow> v)"

definition subscript :: "'a option \<Rightarrow> py_error + 'a" where
  \<comment> \<open>\<open>d[key]\<close>: a missing key raises\<close>
  "subscript field = (case field of None \<Rightarrow> Inl KeyError | Some v \<Rightarrow> Inr v)"

definition py_truediv :: "real \<Rightarrow> real \<Rightarrow> py_error + real" where
  \<comment> \<open>\<open>a / b\<close>\<close>
  "py_truediv a b = (if b = 0 then Inl ZeroDivisionError else Inr (a / b))"

definition py_sorted :: "('a \<Rightarrow> 'k::linorder) \<Rightarrow> bool \<Rightarrow> 'a list \<Rightarrow> 'a list" where
  \<comment> \<open>\<open>sorted(xs, key=key, reverse=reverse)\<close> and \<open>xs.sort(...)\<close>: a stable sort; with
      \<open>reverse\<close> the keys descend and equal keys still keep their original order\<close>
  "py_sorted key reverse xs =
     (if reverse then rev (sort_key key (rev xs)) else sort_key key xs)"

fun max_from :: "('a \<Rightarrow> 'k::linorder) \<Rightarrow> 'a \<Rightarrow> 'a list \<Rightarrow> 'a" where
  \<comment> \<open>the loop of \<open>max(xs, key=key)\<close>: a later element replaces the best one only when
      its key is strictly greater\<close>
  "max_from key best [] = best"
| "max_from key best (x # xs) = max_from key (if key best < key x then x else best) xs"

definition py_max :: "('a \<Rightarrow> 'k::linorder) \<Rightarrow> 'a list \<Rightarrow> py_error + 'a" where
  \<comment> \<open>\<open>max(xs, key=key)\<close>: the first element with the greatest key; ValueError on []\<close>
  "py_max key xs = (case xs of [] \<Rightarrow> Inl ValueError | x # rest \<Rightarrow> Inr (max_from key x rest))"

section \<open>utils/data\_manager.py\<close>

text \<open>
  The files under the data directory are a map from paths to stored documents.
  Directories are not modelled: every \<open>os.makedirs\<close> has \<open>exist_ok=True\<close>. Whether
  a write succeeds is decided outside the program and enters as a boolean.

  A \<open>DataManager\<close> object has the attribute \<open>data_dir\<close>. The attribute \<open>data\<close>, which
  \<open>get_data\<close> reads, is a field of type option: \<open>None\<close> is an object without that
  attribute.
\<close>

type_synonym path = "string list"
type_synonym 'd filesystem = "path \<rightharpoonup> 'd"

record 'v DataManager =
  data_dir :: string
  data :: "(string \<rightharpoonup> (string \<rightharpoonup> 'v)) option"

definition DataManager_init :: "string \<Rightarrow> 'v DataManager" where
  \<comment> \<open>\<open>__init__\<close> assigns \<open>self.data_dir\<close> and nothing else\<close>
  "DataManager_init dir = \<lparr>data_dir = dir, data = None\<rparr>"

definition save_data ::
  "'v DataManager \<Rightarrow> 'd filesystem \<Rightarrow> string \<Rightarrow> string \<Rightarrow> string \<Rightarrow> 'd \<Rightarrow> bool
     \<Rightarrow> 'd filesystem \<times> bool" where
  "save_data self fs student_id module_name file_name doc writable =
     (let file_path = [data_dir self, module_name, student_id, file_name @ ''.json'']
      in if writable then (fs(file_path \<mapsto> doc), True) else (fs, False))"

definition load_data ::
  "'v DataManager \<Rightarrow> 'd filesystem \<Rightarrow> string \<Rightarrow> string \<Rightarrow> string \<Rightarrow> 'd option" where
  "load_data self fs student_id module_name file_name =
     fs [data_dir self, module_name, student_id, file_name @ ''.json'']"

definition get_data_try :: "'v DataManager \<Rightarrow> string \<Rightarrow> string \<Rightarrow> 'v \<Rightarrow> py_error + 'v" where
  \<comment> \<open>the body of the \<open>try\<close> in \<open>get_data\<close>; reading a missing attribute raises\<close>
  "get_data_try self student_id data_type dflt =
     (case data self of
        None \<Rightarrow> Inl AttributeError
      | Some d \<Rightarrow>
          (case d student_id of
             None \<Rightarrow> Inr dflt
           | Some per_student \<Rightarrow>
               (case per_student data_type of
                  None \<Rightarrow> Inr dflt
                | Some v \<Rightarrow> Inr v)))"

definition get_data :: "'v DataManager \<Rightarrow> string \<Rightarrow> string \<Rightarrow> 'v \<Rightarrow> 'v" where
  "get_data self student_id data_type dflt =
     (case get_data_try self student_id data_type dflt of
        Inl e \<Rightarrow> dflt
      | Inr v \<Rightarrow> v)"

section \<open>modules/academic\_tracker.py\<close>

record performance_entry =
  semester :: "string option"
  semester_index :: "int option"
  sgpa :: "real option"
  credits :: "int option"
  cgpa :: "real option"
  date_added :: "string option"

text \<open>
  Of the tracker's attributes only those that the two modelled methods touch are kept.
\<close>

record 'v AcademicTracker =
  at_student_id :: string
  at_data_manager :: "'v DataManager"
  performance :: "performance_entry list"

definition total_credits :: "performance_entry list \<Rightarrow> int" where
  \<comment> \<open>\<open>sum(sem.get("credits", 0) for sem in sorted_performance)\<close>\<close>
  "total_credits sems = (\<Sum>sem\<leftarrow>sems. get_or (credits sem) 0)"

definition weighted_sum :: "performance_entry list \<Rightarrow> real" where
  \<comment> \<open>\<open>sum(sem.get("sgpa", 0) * sem.get("credits", 0) for sem in sorted_performance)\<close>\<close>
  "weighted_sum sems = (\<Sum>sem\<leftarrow>sems. get_or (sgpa sem) 0 * of_int (get_or (credits sem) 0))"

definition calculate_cgpa ::
  "performance_entry list \<Rightarrow> performance_entry \<Rightarrow> py_error + performance_entry" where
  \<comment> \<open>the first block of \<open>add_semester_performance\<close>: the record with its \<open>cgpa\<close> set\<close>
  "calculate_cgpa perf performance_data =
     (case (sgpa performance_data, credits performance_data) of
        (Some s, Some c) \<Rightarrow>
          (let sorted_performance = py_sorted (\<lambda>x. get_or (semester_index x) 0) False perf
           in if sorted_performance = [] then Inr (performance_data\<lparr>cgpa := Some s\<rparr>)
              else
                (let total = total_credits sorted_performance + c;
                     weighted = weighted_sum sorted_performance + s * of_int c
                 in if 0 < total
                    then (case py_truediv weighted (of_int total) of
                            Inl e \<Rightarrow> Inl e
                          | Inr q \<Rightarrow> Inr (performance_data\<lparr>cgpa := Some q\<rparr>))
                    else Inr (performance_data\<lparr>cgpa := Some 0\<rparr>)))
      | _ \<Rightarrow> Inr performance_data)"

definition add_semester_performance ::
  "'v AcademicTracker \<Rightarrow> performance_entry list filesystem \<Rightarrow> performance_entry \<Rightarrow> bool
     \<Rightarrow> py_error + ('v AcademicTracker \<times> performance_entry list filesystem \<times> bool)" where
  "add_semester_performance self fs performance_data writable =
     (case calculate_cgpa (performance self) performance_data of
        Inl e \<Rightarrow> Inl e
      | Inr stored \<Rightarrow>
          (let perf' = performance self @ [stored];
               (fs', success) = save_data (at_data_manager self) fs (at_student_id self)
                                  ''academic'' ''performance'' perf' writable
           in Inr (self\<lparr>performance := perf'\<rparr>, fs', success)))"

definition get_current_cgpa :: "'v AcademicTracker \<Rightarrow> py_error + real" where
  "get_current_cgpa self =
     (if performance self = [] then Inr 0
      else (case py_max (\<lambda>x. get_or (semester_index x) 0) (performance self) of
              Inl e \<Rightarrow> Inl e
            | Inr latest \<Rightarrow> Inr (get_or (cgpa latest) 0)))"

section \<open>The standard library: datetime and random\<close>

text \<open>
  A naive \<open>datetime\<close> is its count of microseconds since 0001-01-01T00:00:00, a
  \<open>timedelta\<close> a count of microseconds. The calendar fields of a datetime are
  computed the way CPython's \<open>datetime._ord2ymd\<close> does. Years stay within 1..9999,
  the range of the type; the arithmetic below does not model OverflowError.
\<close>

type_synonym datetime = int
type_synonym timedelta = int

definition timedelta_days :: "int \<Rightarrow> timedelta" where
  \<comment> \<open>\<open>timedelta(days=n)\<close>\<close>
  "timedelta_days n = n * 86400000000"

definition timedelta_hours :: "int \<Rightarrow> timedelta" where
  \<comment> \<open>\<open>timedelta(hours=n)\<close>\<close>
  "timedelta_hours n = n * 3600000000"

definition days :: "timedelta \<Rightarrow> int" where
  \<comment> \<open>the attribute \<open>.days\<close> of a normalised timedelta: whole days, rounded down\<close>
  "days td = td div 86400000000"

definition DAYS_IN_MONTH :: "int list" where
  "DAYS_IN_MONTH = [-1, 31, 28, 31, 30, 31, 30, 31, 31, 30, 31, 30, 31]"

definition DAYS_BEFORE_MONTH :: "int list" where
  "DAYS_BEFORE_MONTH = [-1, 0, 31, 59, 90, 120, 151, 181, 212, 243, 273, 304, 334]"

definition ord2ymd :: "int \<Rightarrow> int \<times> int \<times> int" where
  \<comment> \<open>ordinal (1 is 0001-01-01) to year, month, day\<close>
  "ord2ymd ordinal =
     (let n0 = ordinal - 1;
          n400 = n0 div 146097; n1 = n0 mod 146097;
          n100 = n1 div 36524; n2 = n1 mod 36524;
          n4 = n2 div 1461; n3 = n2 mod 1461;
          ny = n3 div 365; n = n3 mod 365;
          year = n400 * 400 + 1 + n100 * 100 + n4 * 4 + ny
      in if ny = 4 \<or> n100 = 4 then (year - 1, 12, 31)
         else
           (let leapyear = (ny = 3 \<and> (n4 \<noteq> 24 \<or> n100 = 3));
                month = (n + 50) div 32;
                preceding = DAYS_BEFORE_MONTH ! nat month
                            + (if 2 < month \<and> leapyear then 1 else 0)
            in if n < preceding
               then (let month' = month - 1;
                         preceding' = preceding
                            - (DAYS_IN_MONTH ! nat month'
                               + (if month' = 2 \<and> leapyear then 1 else 0))
                     in (year, month', n - preceding' + 1))
               else (year, month, n - preceding + 1)))"

definition dt_year :: "datetime \<Rightarrow> int" where
  "dt_year dt = fst (ord2ymd (dt div 86400000000 + 1))"

definition dt_month :: "datetime \<Rightarrow> int" where
  "dt_month dt = fst (snd (ord2ymd (dt div 86400000000 + 1)))"

definition dt_day :: "datetime \<Rightarrow> int" where
  "dt_day dt = snd (snd (ord2ymd (dt div 86400000000 + 1)))"

definition digit_char :: "nat \<Rightarrow> char" where
  "digit_char n = ''0123456789'' ! n"

fun zero_padded :: "nat \<Rightarrow> nat \<Rightarrow> string" where
  \<comment> \<open>the last \<open>width\<close> decimal digits, as \<open>%0<width>d\<close> prints a number that fits\<close>
  "zero_padded 0 n = []"
| "zero_padded (Suc width) n = zero_padded width (n div 10) @ [digit_char (n mod 10)]"

fun str_nat :: "nat \<Rightarrow> string" where
  \<comment> \<open>\<open>str(n)\<close> of a natural number\<close>
  "str_nat n = (if n < 10 then [digit_char n] else str_nat (n div 10) @ [digit_char (n mod 10)])"

declare str_nat.simps [simp del]

definition str_int :: "int \<Rightarrow> string" where
  "str_int i = (if i < 0 then ''-'' @ str_nat (nat (- i)) else str_nat (nat i))"

definition iso_date :: "int \<Rightarrow> int \<Rightarrow> int \<Rightarrow> string" where
  "iso_date y m d =
     zero_padded 4 (nat y) @ ''-'' @ zero_padded 2 (nat m) @ ''-'' @ zero_padded 2 (nat d)"

definition isoformat :: "datetime \<Rightarrow> string" where
  \<comment> \<open>\<open>datetime.isoformat()\<close>: the fraction is printed only when it is not zero\<close>
  "isoformat dt =
     (let rest = dt mod 86400000000;
          secs = rest div 1000000;
          us = rest mod 1000000
      in iso_date (dt_year dt) (dt_month dt) (dt_day dt) @ ''T''
         @ zero_padded 2 (nat (secs div 3600)) @ '':''
         @ zero_padded 2 (nat (secs div 60 mod 60)) @ '':''
         @ zero_padded 2 (nat (secs mod 60))
         @ (if us = 0 then [] else ''.'' @ zero_padded 6 (nat us)))"

definition month_start_iso :: "datetime \<Rightarrow> string" where
  \<comment> \<open>\<open>datetime(now.year, now.month, 1).isoformat()\<close>\<close>
  "month_start_iso now = iso_date (dt_year now) (dt_month now) 1 @ ''T00:00:00''"

text \<open>
  The module \<open>random\<close> draws from a hidden generator. The generator is the sequence
  of its raw outputs together with the number of draws made so far; a draw from a range
  reduces the raw output into the range, so every value of the range can come out.
\<close>

type_synonym rng = "(nat \<Rightarrow> nat) \<times> nat"

definition randint :: "int \<Rightarrow> int \<Rightarrow> rng \<Rightarrow> int \<times> rng" where
  \<comment> \<open>\<open>random.randint(a, b)\<close> with \<open>a \<le> b\<close>\<close>
  "randint a b g = (a + int (fst g (snd g) mod nat (b - a + 1)), (fst g, Suc (snd g)))"

definition choice :: "'a list \<Rightarrow> rng \<Rightarrow> 'a \<times> rng" where
  \<comment> \<open>\<open>random.choice(seq)\<close> on a non-empty sequence\<close>
  "choice seq g = (seq ! (fst g (snd g) mod length seq), (fst g, Suc (snd g)))"

definition slice_to :: "int \<Rightarrow> 'a list \<Rightarrow> 'a list" where
  \<comment> \<open>\<open>xs[:limit]\<close>: a negative limit counts from the end\<close>
  "slice_to limit xs =
     (if 0 \<le> limit then take (nat limit) xs else take (length xs - nat (- limit)) xs)"

section \<open>modules/financial\_planner.py\<close>

record transaction =
  amount :: "real option"
  txn_description :: "string option"
  category :: "string option"
  date :: "string option"
  txn_type :: "string option"
  transaction_id :: "string option"
  created_at :: "string option"

text \<open>
  A dictionary from category names to amounts is an association list in insertion
  order, as Python keeps it.
\<close>

type_synonym amounts = "(string \<times> real) list"

record FinancialPlanner =
  fp_student_id :: string
  fp_data_manager :: "transaction list DataManager"
  transactions :: "transaction list"
  budget :: amounts

fun add_to_category :: "amounts \<Rightarrow> string \<Rightarrow> real \<Rightarrow> amounts" where
  \<comment> \<open>\<open>if c in d: d[c] += a  else: d[c] = a\<close>\<close>
  "add_to_category [] c a = [(c, a)]"
| "add_to_category ((c', a') # d) c a =
     (if c' = c then (c', a' + a) # d else (c', a') # add_to_category d c a)"

definition group_by_category :: "transaction list \<Rightarrow> amounts" where
  \<comment> \<open>the loop that sums \<open>abs(amount)\<close> per category, from an empty dictionary\<close>
  "group_by_category ts =
     foldl (\<lambda>d t. add_to_category d (get_or (category t) ''Other'') \<bar>get_or (amount t) 0\<bar>) [] ts"

definition add_transaction ::
  "FinancialPlanner \<Rightarrow> transaction list filesystem \<Rightarrow> transaction \<Rightarrow> string \<Rightarrow> datetime \<Rightarrow> bool
     \<Rightarrow> FinancialPlanner \<times> transaction list filesystem \<times> bool" where
  \<comment> \<open>\<open>uuid\<close> is the text of the fresh \<open>uuid.uuid4()\<close>, \<open>now\<close> the clock reading\<close>
  "add_transaction self fs transaction_data uuid now writable =
     (let t1 = (if transaction_id transaction_data = None
                then transaction_data\<lparr>transaction_id := Some uuid\<rparr> else transaction_data);
          t2 = (if created_at t1 = None then t1\<lparr>created_at := Some (isoformat now)\<rparr> else t1);
          ts = transactions self @ [t2];
          (fs', success) = save_data (fp_data_manager self) fs (fp_student_id self)
                             ''financial'' ''transactions'' ts writable
      in (self\<lparr>transactions := ts\<rparr>, fs', success))"

fun sample_transactions :: "nat \<Rightarrow> string list \<Rightarrow> rng \<Rightarrow> transaction list \<times> rng" where
  \<comment> \<open>the comprehension over \<open>enumerate(sample_dates)\<close>, from index \<open>i\<close> on; in one
      element the amount is drawn before the category\<close>
  "sample_transactions i [] g = ([], g)"
| "sample_transactions i (d # ds) g =
     (let (amt, g1) = (if i mod 3 \<noteq> 0
                       then (let (r, g') = randint 50 500 g in (- r, g'))
                       else randint 500 2000 g);
          desc = (if i mod 3 \<noteq> 0 then ''Sample expense '' else ''Sample income '');
          (cat, g2) = (if i mod 3 \<noteq> 0
                       then choice [''Food'', ''Transportation'', ''Books & Supplies'',
                                    ''Entertainment''] g1
                       else (''Pocket Money'', g1));
          t = \<lparr>amount = Some (of_int amt), txn_description = Some (desc @ str_nat i),
               category = Some cat, date = Some d, txn_type = None,
               transaction_id = None, created_at = None\<rparr>;
          (rest, g3) = sample_transactions (Suc i) ds g2
      in (t # rest, g3))"

definition sample_dates :: "datetime \<Rightarrow> nat \<Rightarrow> string list" where
  \<comment> \<open>\<open>[(now - timedelta(days=i)).isoformat() for i in range(n, 0, -1)]\<close>\<close>
  "sample_dates now n = map (\<lambda>i. isoformat (now - timedelta_days (int i))) (rev [1..<Suc n])"

definition get_recent_transactions ::
  "FinancialPlanner \<Rightarrow> int \<Rightarrow> datetime \<Rightarrow> rng \<Rightarrow> transaction list \<times> rng" where
  \<comment> \<open>returns the list and the generator as the call leaves it\<close>
  "get_recent_transactions self limit now g =
     (if transactions self = [] then sample_transactions 0 (sample_dates now 10) g
      else
        (let sorted_transactions = py_sorted (\<lambda>x. get_or (date x) []) True (transactions self)
         in if limit \<noteq> 0 then (slice_to limit sorted_transactions, g)
            else (sorted_transactions, g)))"

definition get_all_transactions :: "FinancialPlanner \<Rightarrow> transaction list" where
  \<comment> \<open>\<open>get_data\<close> raises nothing, so the handler around the call is never entered\<close>
  "get_all_transactions self =
     get_data (fp_data_manager self) (fp_student_id self) ''financial_transactions'' []"

definition get_actual_spending :: "FinancialPlanner \<Rightarrow> datetime \<Rightarrow> amounts" where
  "get_actual_spending self now =
     (let month_start = month_start_iso now;
          month_transactions =
            filter (\<lambda>t. month_start \<le> get_or (date t) [] \<and> get_or (amount t) 0 < 0)
              (transactions self)
      in group_by_category month_transactions)"

definition get_budget_adherence :: "FinancialPlanner \<Rightarrow> datetime \<Rightarrow> py_error + real" where
  "get_budget_adherence self now =
     (if budget self = [] then Inr 0
      else
        (let actual_spending = get_actual_spending self now;
             total_budget = sum_list (map snd (budget self));
             total_spending = sum_list (map snd actual_spending)
         in if total_budget = 0 then Inr 0
            else (case py_truediv total_spending total_budget of
                    Inl e \<Rightarrow> Inl e
                  | Inr q \<Rightarrow> (let adherence = (1 - q) * 100 in Inr (max 0 (min 100 adherence))))))"

definition get_expenses_by_category :: "FinancialPlanner \<Rightarrow> amounts" where
  \<comment> \<open>\<open>categories[c] = 0\<close> followed by \<open>categories[c] += a\<close> stores what
      \<open>add_to_category\<close> stores; the list of pairs is the list of
      \<open>{"category", "amount"}\<close> records\<close>
  "get_expenses_by_category self =
     (let transactions = get_all_transactions self;
          expenses = filter (\<lambda>t. get_or (amount t) 0 < 0) transactions;
          categories = group_by_category expenses
      in py_sorted snd True categories)"

section \<open>modules/mental\_wellness.py\<close>

record mood_entry =
  mood_date :: "string option"
  score :: "real option"
  stress_factors :: "string list option"
  sleep_hours :: "real option"

record MentalWellnessCoach =
  mw_student_id :: string
  mood_entries :: "mood_entry list"

fun sample_moods :: "string list \<Rightarrow> rng \<Rightarrow> (string \<times> real) list \<times> rng" where
  \<comment> \<open>\<open>[{"date": date, "score": 5 + random.randint(-2, 2)} for date in sample_dates]\<close>\<close>
  "sample_moods [] g = ([], g)"
| "sample_moods (d # ds) g =
     (let (r, g1) = randint (- 2) 2 g;
          (rest, g2) = sample_moods ds g1
      in ((d, of_int (5 + r)) # rest, g2))"

definition get_mood_history ::
  "MentalWellnessCoach \<Rightarrow> datetime \<Rightarrow> rng \<Rightarrow> (string \<times> real) list \<times> rng" where
  \<comment> \<open>a pair is one \<open>{"date", "score"}\<close> record\<close>
  "get_mood_history self now g =
     (if mood_entries self = [] then sample_moods (sample_dates now 14) g
      else (map (\<lambda>entry. (get_or (mood_date entry) [], get_or (score entry) 0))
              (mood_entries self), g))"

section \<open>utils/prediction\_engine.py\<close>

text \<open>
  The engine reads the student's JSON files through \<open>load_data\<close>, which returns
  \<open>None\<close> for a file that does not exist or cannot be read. \<open>student_files\<close> has one
  optional field per file the engine asks for. A date field that the engine passes to
  \<open>datetime.fromisoformat\<close> is kept as what that function makes of its text: the
  datetime it denotes, or a text for which it raises ValueError.

  The engine reads the clock several times during one call; the model takes one reading
  \<open>now\<close> for the whole call.
\<close>

datatype date_text = Parsable datetime | Unparsable string

definition fromisoformat :: "date_text \<Rightarrow> py_error + datetime" where
  "fromisoformat d = (case d of Parsable dt \<Rightarrow> Inr dt | Unparsable s \<Rightarrow> Inl ValueError)"

definition nonempty_text :: "date_text \<Rightarrow> bool" where
  \<comment> \<open>the truth value of the text: only the empty text is false\<close>
  "nonempty_text d = (case d of Parsable dt \<Rightarrow> True | Unparsable s \<Rightarrow> s \<noteq> [])"

record task =
  due_date :: "date_text option"
  status :: "string option"
  task_type :: "string option"
  task_title :: "string option"
  course_code :: "string option"

record study_session =
  study_date :: "date_text option"
  study_hours :: "real option"

record goal =
  goal_name :: "string option"

record mood_record =
  record_date :: "date_text option"
  record_score :: "real option"
  record_stress_factors :: "string list option"

record sleep_record =
  night_date :: "date_text option"
  night_hours :: "real option"

record career_data =
  interests :: "string list option"

record profile_data =
  full_name :: "string option"
  college_name :: "string option"
  degree :: "string option"
  year_of_study :: "string option"

text \<open>An entry of a collection of which the engine only asks whether it is empty.\<close>

type_synonym entry = "(string \<times> string) list"

record student_files =
  academic_tasks :: "task list option"
  academic_performance :: "performance_entry list option"
  academic_study_hours :: "study_session list option"
  financial_transactions :: "transaction list option"
  financial_budget :: "amounts option"
  financial_financial_aid :: "entry list option"
  financial_goals :: "goal list option"
  wellness_mood :: "mood_record list option"
  wellness_sleep :: "sleep_record list option"
  career_career_data :: "career_data option"
  career_skills :: "entry list option"
  career_experiences :: "entry list option"

definition or_empty :: "'a list option \<Rightarrow> 'a list" where
  \<comment> \<open>\<open>load_data(...) or []\<close>, and \<open>or {}\<close> on a dictionary kept as a list\<close>
  "or_empty loaded = (case loaded of None \<Rightarrow> [] | Some xs \<Rightarrow> xs)"

text \<open>
  A formatted string whose fields are not all text is kept as its parts: literal text,
  one character given by its code point, \<open>str\<close> of an integer, and a float under the
  format \<open>.<n>f\<close>.
\<close>

datatype piece = Str string | Chr nat | IntStr int | Fixed nat real

record recommendation =
  title :: string
  description :: "piece list"
  priority :: string

record PredictiveEngine =
  pe_student_id :: string
  student_profile :: "profile_data option"
  recommendations_cache :: "recommendation list option"
  last_update :: "datetime option"

fun filter_raising :: "('a \<Rightarrow> py_error + bool) \<Rightarrow> 'a list \<Rightarrow> py_error + 'a list" where
  \<comment> \<open>\<open>[x for x in xs if cond(x)]\<close> where the condition may raise: the first
      exception ends the comprehension\<close>
  "filter_raising cond [] = Inr []"
| "filter_raising cond (x # xs) =
     (case cond x of
        Inl e \<Rightarrow> Inl e
      | Inr keep \<Rightarrow>
          (case filter_raising cond xs of
             Inl e \<Rightarrow> Inl e
           | Inr rest \<Rightarrow> Inr (if keep then x # rest else rest)))"

definition is_upcoming :: "datetime \<Rightarrow> task \<Rightarrow> py_error + bool" where
  \<comment> \<open>\<open>task.get("due_date") and fromisoformat(task["due_date"]) - now <= timedelta(days=3)
      and task.get("status") != "completed"\<close>\<close>
  "is_upcoming now t =
     (case due_date t of
        None \<Rightarrow> Inr False
      | Some d \<Rightarrow>
          if \<not> nonempty_text d then Inr False
          else (case fromisoformat d of
                  Inl e \<Rightarrow> Inl e
                | Inr due \<Rightarrow>
                    Inr (due - now \<le> timedelta_days 3 \<and> status t \<noteq> Some ''completed'')))"

definition single_deadline :: "datetime \<Rightarrow> task \<Rightarrow> py_error + recommendation" where
  \<comment> \<open>the record built from \<open>upcoming_tasks[0]\<close>; the fields are read in the order
      type, title, course code, due date\<close>
  "single_deadline now t =
     (case subscript (task_type t) of
        Inl e \<Rightarrow> Inl e
      | Inr ty \<Rightarrow>
     (case subscript (task_title t) of
        Inl e \<Rightarrow> Inl e
      | Inr ti \<Rightarrow>
     (case subscript (course_code t) of
        Inl e \<Rightarrow> Inl e
      | Inr code \<Rightarrow>
     (case subscript (due_date t) of
        Inl e \<Rightarrow> Inl e
      | Inr d \<Rightarrow>
     (case fromisoformat d of
        Inl e \<Rightarrow> Inl e
      | Inr due \<Rightarrow>
          Inr \<lparr>title = ty @ '' Due Soon'',
               description = [Str ''Your '', Str ti, Str '' for '', Str code,
                              Str '' is due in '', IntStr (days (due - now)), Str '' days.''],
               priority = ''medium''\<rparr>)))))"

definition deadline_recommendations :: "datetime \<Rightarrow> task list \<Rightarrow> py_error + recommendation list" where
  "deadline_recommendations now tasks =
     (case filter_raising (is_upcoming now) tasks of
        Inl e \<Rightarrow> Inl e
      | Inr upcoming_tasks \<Rightarrow>
          (case upcoming_tasks of
             [] \<Rightarrow> Inr []
           | t # _ \<Rightarrow>
               if 3 \<le> length upcoming_tasks
               then Inr [\<lparr>title = ''Multiple Deadlines Approaching'',
                          description =
                            [Str ''You have '', IntStr (int (length upcoming_tasks)),
                             Str '' tasks due in the next 3 days. Consider creating a study plan.''],
                          priority = ''high''\<rparr>]
               else (case single_deadline now t of
                       Inl e \<Rightarrow> Inl e
                     | Inr r \<Rightarrow> Inr [r])))"

definition cgpa_recommendations :: "performance_entry list \<Rightarrow> recommendation list" where
  "cgpa_recommendations perf =
     (if perf \<noteq> [] \<and> 2 \<le> length perf
      then (let sorted_perf = py_sorted (\<lambda>x. get_or (semester_index x) 0) False perf;
                latest_cgpa = get_or (cgpa (last sorted_perf)) 0;
                previous_cgpa = get_or (cgpa (last (butlast sorted_perf))) 0
            in if latest_cgpa < previous_cgpa
               then [\<lparr>title = ''CGPA Declining'',
                       description =
                         [Str ''Your CGPA dropped from '', Fixed 2 previous_cgpa, Str '' to '',
                          Fixed 2 latest_cgpa, Str ''. Consider seeking academic support.''],
                       priority = ''high''\<rparr>]
               else [])
      else [])"

definition is_recent :: "datetime \<Rightarrow> date_text option \<Rightarrow> py_error + bool" where
  \<comment> \<open>\<open>datetime.fromisoformat(entry["date"]) > now - timedelta(days=7)\<close>\<close>
  "is_recent now field =
     (case subscript field of
        Inl e \<Rightarrow> Inl e
      | Inr d \<Rightarrow>
          (case fromisoformat d of
             Inl e \<Rightarrow> Inl e
           | Inr dt \<Rightarrow> Inr (now - timedelta_days 7 < dt)))"

definition study_recommendations ::
  "datetime \<Rightarrow> study_session list \<Rightarrow> py_error + recommendation list" where
  "study_recommendations now study_data =
     (if study_data = [] then Inr []
      else (case filter_raising (\<lambda>session. is_recent now (study_date session)) study_data of
              Inl e \<Rightarrow> Inl e
            | Inr recent_study \<Rightarrow>
                if recent_study = []
                then Inr [\<lparr>title = ''No Recent Study Sessions'',
                           description = [Str ''You haven't logged any study sessions in the past week. Regular study helps retain information.''],
                           priority = ''medium''\<rparr>]
                else if (\<Sum>session\<leftarrow>recent_study. get_or (study_hours session) 0) < 10
                then Inr [\<lparr>title = ''Low Study Hours'',
                           description = [Str ''You've logged less than 10 hours of study in the past week. Consider increasing your study time.''],
                           priority = ''medium''\<rparr>]
                else Inr []))"

definition generate_academic_recommendations ::
  "student_files \<Rightarrow> datetime \<Rightarrow> py_error + recommendation list" where
  "generate_academic_recommendations files now =
     (let tasks = or_empty (academic_tasks files);
          perf = or_empty (academic_performance files)
      in case deadline_recommendations now tasks of
           Inl e \<Rightarrow> Inl e
         | Inr r1 \<Rightarrow>
             (let r2 = cgpa_recommendations perf;
                  study_data = or_empty (academic_study_hours files)
              in case study_recommendations now study_data of
                   Inl e \<Rightarrow> Inl e
                 | Inr r3 \<Rightarrow> Inr (r1 @ r2 @ r3)))"

fun month_expenses_loop :: "string \<Rightarrow> amounts \<Rightarrow> transaction list \<Rightarrow> py_error + amounts" where
  \<comment> \<open>\<open>transaction.get("date") >= current_month_start\<close> compares \<open>None\<close> with a text
      when the date is absent, which raises TypeError;
      \<open>d[c] = d.get(c, 0) + a\<close> stores what \<open>add_to_category\<close> stores\<close>
  "month_expenses_loop month_start month_expenses [] = Inr month_expenses"
| "month_expenses_loop month_start month_expenses (t # ts) =
     (case date t of
        None \<Rightarrow> Inl TypeError
      | Some d \<Rightarrow>
          if month_start \<le> d \<and> get_or (amount t) 0 < 0
          then month_expenses_loop month_start
                 (add_to_category month_expenses (get_or (category t) ''Other'')
                    \<bar>get_or (amount t) 0\<bar>) ts
          else month_expenses_loop month_start month_expenses ts)"

record over_budget =
  ob_category :: string
  ob_budget :: real
  ob_actual :: real
  percent_over :: real

definition over_budget_categories :: "amounts \<Rightarrow> amounts \<Rightarrow> over_budget list" where
  "over_budget_categories budget_items month_expenses =
     concat (map (\<lambda>(c, budgeted).
        (case map_of month_expenses c of
           None \<Rightarrow> []
         | Some actual \<Rightarrow>
             if 0 < budgeted \<and> budgeted < actual
             then [\<lparr>ob_category = c, ob_budget = budgeted, ob_actual = actual,
                     percent_over = (actual - budgeted) / budgeted * 100\<rparr>]
             else [])) budget_items)"

definition budget_recommendations ::
  "datetime \<Rightarrow> amounts \<Rightarrow> transaction list \<Rightarrow> py_error + recommendation list" where
  "budget_recommendations now budget_items txns =
     (if budget_items = []
      then Inr [\<lparr>title = ''Set Up Your Budget'',
                 description = [Str ''Creating a budget is the first step to managing your finances effectively.''],
                 priority = ''high''\<rparr>]
      else (case month_expenses_loop (month_start_iso now) [] txns of
              Inl e \<Rightarrow> Inl e
            | Inr month_expenses \<Rightarrow>
                (let over = over_budget_categories budget_items month_expenses
                 in if over = [] then Inr []
                    else (case py_max percent_over over of
                            Inl e \<Rightarrow> Inl e
                          | Inr most_over \<Rightarrow>
                              Inr [\<lparr>title = ''Budget Alert: '' @ ob_category most_over,
                                    description =
                                      [Str ''You've exceeded your '', Str (ob_category most_over),
                                       Str '' budget by '', Chr 0xE2, Chr 0x201A, Chr 0xB9,
                                       Fixed 0 (ob_actual most_over - ob_budget most_over),
                                       Str '' ('', Fixed 0 (percent_over most_over), Str ''%).''],
                                    priority = (if 50 < percent_over most_over then ''high''
                                                else ''medium'')\<rparr>]))))"

definition lower_char :: "char \<Rightarrow> char" where
  "lower_char c =
     (case map_of (zip ''ABCDEFGHIJKLMNOPQRSTUVWXYZ'' ''abcdefghijklmnopqrstuvwxyz'') c of
        None \<Rightarrow> c
      | Some l \<Rightarrow> l)"

definition lower :: "string \<Rightarrow> string" where
  \<comment> \<open>\<open>str.lower()\<close> on ASCII text\<close>
  "lower s = map lower_char s"

fun contains_text :: "string \<Rightarrow> string \<Rightarrow> bool" where
  \<comment> \<open>\<open>s.find(sub) >= 0\<close>\<close>
  "contains_text sub [] = (sub = [])"
| "contains_text sub (c # s) = (take (length sub) (c # s) = sub \<or> contains_text sub s)"

definition generate_financial_recommendations ::
  "student_files \<Rightarrow> datetime \<Rightarrow> py_error + recommendation list" where
  "generate_financial_recommendations files now =
     (let txns = or_empty (financial_transactions files);
          budget_items = or_empty (financial_budget files);
          financial_aid = or_empty (financial_financial_aid files)
      in case budget_recommendations now budget_items txns of
           Inl e \<Rightarrow> Inl e
         | Inr r1 \<Rightarrow>
             (let r2 = (if financial_aid = []
                        then [\<lparr>title = ''Explore Scholarship Opportunities'',
                                description = [Str ''Check the Financial Planner section to find scholarships you may be eligible for.''],
                                priority = ''medium''\<rparr>]
                        else []);
                  financial_goals = or_empty (financial_goals files);
                  has_emergency_fund =
                    list_ex (\<lambda>g. contains_text ''emergency'' (lower (get_or (goal_name g) [])))
                      financial_goals;
                  r3 = (if \<not> has_emergency_fund
                        then [\<lparr>title = ''Start an Emergency Fund'',
                                description = [Str ''Even a small emergency fund can help you handle unexpected expenses.''],
                                priority = ''medium''\<rparr>]
                        else [])
              in Inr (r1 @ r2 @ r3)))"

fun count_factor :: "(string \<times> int) list \<Rightarrow> string \<Rightarrow> (string \<times> int) list" where
  \<comment> \<open>\<open>factor_counts[factor] = factor_counts.get(factor, 0) + 1\<close>\<close>
  "count_factor [] f = [(f, 1)]"
| "count_factor ((f', n) # counts) f =
     (if f' = f then (f', n + 1) # counts else (f', n) # count_factor counts f)"

definition stress_recommendations :: "mood_record list \<Rightarrow> recommendation list" where
  "stress_recommendations recent_mood =
     (let stress_factors = concat (map (\<lambda>entry. or_empty (record_stress_factors entry)) recent_mood)
      in if stress_factors = [] then []
         else (case py_max snd (foldl count_factor [] stress_factors) of
                 Inl e \<Rightarrow> []  \<comment> \<open>not reached: the dictionary of counts is not empty\<close>
               | Inr most_common \<Rightarrow>
                   if 3 \<le> snd most_common
                   then [\<lparr>title = ''Managing '' @ fst most_common,
                           description =
                             [Str (fst most_common),
                              Str '' appears to be a recurring stress factor. Check out the Stress Management section for strategies.''],
                           priority = ''medium''\<rparr>]
                   else []))"

definition mood_recommendations ::
  "datetime \<Rightarrow> mood_record list \<Rightarrow> py_error + recommendation list" where
  "mood_recommendations now mood_data =
     (if mood_data = []
      then Inr [\<lparr>title = ''Start Tracking Your Mood'',
                 description = [Str ''Regular mood tracking helps you identify patterns and manage your mental health better.''],
                 priority = ''low''\<rparr>]
      else (case filter_raising (\<lambda>entry. is_recent now (record_date entry)) mood_data of
              Inl e \<Rightarrow> Inl e
            | Inr recent_mood \<Rightarrow>
                if recent_mood = [] then Inr []
                else (case py_truediv (\<Sum>entry\<leftarrow>recent_mood. get_or (record_score entry) 0)
                             (of_nat (length recent_mood)) of
                        Inl e \<Rightarrow> Inl e
                      | Inr avg_mood \<Rightarrow>
                          Inr ((if avg_mood < 4
                                then [\<lparr>title = ''Your Mood Has Been Low'',
                                        description = [Str ''Your recent mood scores are below average. Consider using some stress management techniques.''],
                                        priority = ''high''\<rparr>]
                                else [])
                               @ stress_recommendations recent_mood))))"

definition sleep_recommendations ::
  "datetime \<Rightarrow> sleep_record list \<Rightarrow> py_error + recommendation list" where
  "sleep_recommendations now sleep_data =
     (if sleep_data = [] then Inr []
      else (case filter_raising (\<lambda>entry. is_recent now (night_date entry)) sleep_data of
              Inl e \<Rightarrow> Inl e
            | Inr recent_sleep \<Rightarrow>
                if recent_sleep = [] then Inr []
                else (case py_truediv (\<Sum>entry\<leftarrow>recent_sleep. get_or (night_hours entry) 0)
                             (of_nat (length recent_sleep)) of
                        Inl e \<Rightarrow> Inl e
                      | Inr avg_sleep \<Rightarrow>
                          Inr (if avg_sleep < 6
                               then [\<lparr>title = ''Improve Sleep Habits'',
                                       description =
                                         [Str ''You're averaging only '', Fixed 1 avg_sleep,
                                          Str '' hours of sleep. Aim for 7-9 hours for better academic performance.''],
                                       priority = ''high''\<rparr>]
                               else []))))"

definition generate_wellness_recommendations ::
  "student_files \<Rightarrow> datetime \<Rightarrow> py_error + recommendation list" where
  "generate_wellness_recommendations files now =
     (let mood_data = or_empty (wellness_mood files);
          sleep_data = or_empty (wellness_sleep files)
      in case mood_recommendations now mood_data of
           Inl e \<Rightarrow> Inl e
         | Inr r1 \<Rightarrow>
             (case sleep_recommendations now sleep_data of
                Inl e \<Rightarrow> Inl e
              | Inr r2 \<Rightarrow> Inr (r1 @ r2)))"

definition experience_recommendations ::
  "profile_data option \<Rightarrow> py_error + recommendation list" where
  \<comment> \<open>\<open>self.student_profile.get(...)\<close> on a profile that is \<open>None\<close> raises
      AttributeError\<close>
  "experience_recommendations profile =
     (case profile of
        None \<Rightarrow> Inl AttributeError
      | Some p \<Rightarrow>
          (let year = get_or (year_of_study p) []
           in if year \<in> set [''2nd Year'', ''3rd Year'', ''4th Year'', ''Final Year'']
              then Inr [\<lparr>title = ''Gain Practical Experience'',
                         description = [Str ''Consider applying for internships or working on projects to build your resume.''],
                         priority = (if year \<in> set [''3rd Year'', ''4th Year'', ''Final Year'']
                                     then ''high'' else ''medium'')\<rparr>]
              else Inr []))"

definition generate_career_recommendations ::
  "PredictiveEngine \<Rightarrow> student_files \<Rightarrow> py_error + recommendation list" where
  "generate_career_recommendations self files =
     (let career = (case career_career_data files of
                      None \<Rightarrow> \<lparr>interests = None\<rparr> | Some c \<Rightarrow> c);
          skills = or_empty (career_skills files);
          experiences = or_empty (career_experiences files);
          r1 = (if or_empty (interests career) = []
                then [\<lparr>title = ''Define Your Career Interests'',
                        description = [Str ''Identifying your interests helps align your academic and extracurricular activities.''],
                        priority = ''medium''\<rparr>]
                else []);
          r2 = (if skills = []
                then [\<lparr>title = ''Start Tracking Skills'',
                        description = [Str ''Documenting and developing your skills is essential for career readiness.''],
                        priority = ''low''\<rparr>]
                else [])
      in if experiences = []
         then (case experience_recommendations (student_profile self) of
                 Inl e \<Rightarrow> Inl e
               | Inr r3 \<Rightarrow> Inr (r1 @ r2 @ r3))
         else Inr (r1 @ r2))"

definition priority_order :: "string \<rightharpoonup> int" where
  "priority_order = [''high'' \<mapsto> 3, ''medium'' \<mapsto> 2, ''low'' \<mapsto> 1]"

definition priority_rank :: "recommendation \<Rightarrow> int" where
  \<comment> \<open>the sort key \<open>priority_order.get(x.get("priority", "low"), 0)\<close>; every
      recommendation has a priority\<close>
  "priority_rank x = get_or (priority_order (priority x)) 0"

definition cache_is_recent :: "PredictiveEngine \<Rightarrow> datetime \<Rightarrow> bool" where
  \<comment> \<open>\<open>self.recommendations_cache and self.last_update and
      datetime.now() - self.last_update < timedelta(hours=1)\<close>\<close>
  "cache_is_recent self now =
     (case (recommendations_cache self, last_update self) of
        (Some cached, Some updated) \<Rightarrow> cached \<noteq> [] \<and> now - updated < timedelta_hours 1
      | _ \<Rightarrow> False)"

definition get_personalized_recommendations ::
  "PredictiveEngine \<Rightarrow> student_files \<Rightarrow> datetime
     \<Rightarrow> py_error + (PredictiveEngine \<times> recommendation list)" where
  \<comment> \<open>returns the engine as the call leaves it and the list; an exception leaves the
      engine as it was\<close>
  "get_personalized_recommendations self files now =
     (if cache_is_recent self now then Inr (self, or_empty (recommendations_cache self))
      else
     (case generate_academic_recommendations files now of
        Inl e \<Rightarrow> Inl e
      | Inr academic_recs \<Rightarrow>
     (case generate_financial_recommendations files now of
        Inl e \<Rightarrow> Inl e
      | Inr financial_recs \<Rightarrow>
     (case generate_wellness_recommendations files now of
        Inl e \<Rightarrow> Inl e
      | Inr wellness_recs \<Rightarrow>
     (case generate_career_recommendations self files of
        Inl e \<Rightarrow> Inl e
      | Inr career_recs \<Rightarrow>
          (let recommendations =
                 py_sorted priority_rank True
                   (academic_recs @ financial_recs @ wellness_recs @ career_recs)
           in Inr (self\<lparr>recommendations_cache := Some recommendations,
                        last_update := Some now\<rparr>, recommendations)))))))"

section \<open>Auxiliary notions for the proofs\<close>

definition known_priority :: "recommendation \<Rightarrow> bool" where
  \<comment> \<open>one of the three priorities of the sort table\<close>
  "known_priority r \<longleftrightarrow> priority r = ''high'' \<or> priority r = ''medium'' \<or> priority r = ''low''"

text \<open>
  Example data: a third-year student with four assignments due tomorrow (the clock reads
  2025-04-10T09:30:15.000250), a CGPA that fell from 8.5 to 8.1, a budget, an
  emergency-fund goal, career interests and skills on file, and nothing else.
\<close>

definition example_now :: datetime where
  "example_now = 63879874215000250"

definition example_engine :: PredictiveEngine where
  "example_engine =
     \<lparr>pe_student_id = ''s1'',
      student_profile = Some \<lparr>full_name = None, college_name = None, degree = None,
                               year_of_study = Some ''3rd Year''\<rparr>,
      recommendations_cache = None, last_update = None\<rparr>"

definition example_task :: task where
  "example_task =
     \<lparr>due_date = Some (Parsable (example_now + timedelta_days 1)), status = Some ''pending'',
      task_type = Some ''Assignment'', task_title = Some ''Research Paper'',
      course_code = Some ''CS101''\<rparr>"

definition example_files :: student_files where
  "example_files =
     \<lparr>academic_tasks = Some [example_task, example_task, example_task, example_task],
      academic_performance = Some
        [\<lparr>semester = None, semester_index = Some 2, sgpa = None, credits = None,
            cgpa = Some (81 / 10), date_added = None\<rparr>,
         \<lparr>semester = None, semester_index = Some 1, sgpa = None, credits = None,
            cgpa = Some (17 / 2), date_added = None\<rparr>],
      academic_study_hours = None, financial_transactions = None,
      financial_budget = Some [(''Food'', 1000)], financial_financial_aid = None,
      financial_goals = Some [\<lparr>goal_name = Some ''Emergency Fund''\<rparr>],
      wellness_mood = None, wellness_sleep = None,
      career_career_data = Some \<lparr>interests = Some [''Software Development'']\<rparr>,
      career_skills = Some [[(''name'', ''Python'')]], career_experiences = None\<rparr>"

definition example_deadlines :: recommendation where
  "example_deadlines =
     \<lparr>title = ''Multiple Deadlines Approaching'',
      description = [Str ''You have '', IntStr 4,
                     Str '' tasks due in the next 3 days. Consider creating a study plan.''],
      priority = ''high''\<rparr>"

definition example_cgpa :: recommendation where
  "example_cgpa =
     \<lparr>title = ''CGPA Declining'',
      description = [Str ''Your CGPA dropped from '', Fixed 2 (17 / 2), Str '' to '',
                     Fixed 2 (81 / 10), Str ''. Consider seeking academic support.''],
      priority = ''high''\<rparr>"

definition example_scholarship :: recommendation where
  "example_scholarship =
     \<lparr>title = ''Explore Scholarship Opportunities'',
      description = [Str ''Check the Financial Planner section to find scholarships you may be eligible for.''],
      priority = ''medium''\<rparr>"

definition example_mood :: recommendation where
  "example_mood =
     \<lparr>title = ''Start Tracking Your Mood'',
      description = [Str ''Regular mood tracking helps you identify patterns and manage your mental health better.''],
      priority = ''low''\<rparr>"

definition example_experience :: recommendation where
  "example_experience =
     \<lparr>title = ''Gain Practical Experience'',
      description = [Str ''Consider applying for internships or working on projects to build your resume.''],
      priority = ''high''\<rparr>"

text \<open>The same student with one assignment due tomorrow whose record has no type.\<close>

definition example_files_untyped_task :: student_files where
  "example_files_untyped_task =
     example_files\<lparr>academic_tasks := Some [example_task\<lparr>task_type := None\<rparr>]\<rparr>"

text \<open>
  An engine whose profile could not be loaded, and four sets of files for it. In the
  first the only task has no type, the only transaction has no date and the only mood
  entry has a date that is no ISO text, so that each of the four generators raises, each
  a different exception; in the next three the task, then also the transaction, then
  also the mood entry are in order.
\<close>

definition example_engine_no_profile :: PredictiveEngine where
  "example_engine_no_profile = example_engine\<lparr>student_profile := None\<rparr>"

definition example_files_all_failing :: student_files where
  "example_files_all_failing =
     example_files_untyped_task
       \<lparr>financial_transactions := Some
          [\<lparr>amount = Some (-250), txn_description = None, category = Some ''Food'',
            date = None, txn_type = Some ''expense'', transaction_id = None,
            created_at = None\<rparr>],
        wellness_mood := Some
          [\<lparr>record_date = Some (Unparsable ''yesterday''), record_score = Some 5,
            record_stress_factors = None\<rparr>]\<rparr>"

definition example_files_failing_from_financial :: student_files where
  "example_files_failing_from_financial =
     example_files_all_failing\<lparr>academic_tasks := Some [example_task]\<rparr>"

definition example_files_failing_from_wellness :: student_files where
  "example_files_failing_from_wellness =
     example_files_failing_from_financial\<lparr>financial_transactions := None\<rparr>"

definition example_files_failing_in_career :: student_files where
  "example_files_failing_in_career =
     example_files_failing_from_wellness\<lparr>wellness_mood := None\<rparr>"

text \<open>A random generator whose every raw output is the same number.\<close>

definition fixed_draws :: "nat \<Rightarrow> nat \<Rightarrow> nat" where
  "fixed_draws k n = k"

section \<open>app.py: the advisor agent and the content cache\<close>

text \<open>
  What the completion service sends back and what \<open>json.loads\<close> makes of a text are
  JSON values; Python's \<open>None\<close> is \<open>JNull\<close>. A text outside ASCII is kept as its
  UTF-8 bytes.
\<close>

datatype json =
  JNull | JBool bool | JNum real | JStr string | JArr "json list" | JObj "(string \<times> json) list"

fun truthy :: "json \<Rightarrow> bool" where
  \<comment> \<open>the truth value Python gives the value in \<open>if value:\<close>\<close>
  "truthy JNull = False"
| "truthy (JBool b) = b"
| "truthy (JNum x) = (x \<noteq> 0)"
| "truthy (JStr s) = (s \<noteq> [])"
| "truthy (JArr xs) = (xs \<noteq> [])"
| "truthy (JObj kvs) = (kvs \<noteq> [])"

fun get_key :: "json \<Rightarrow> string \<Rightarrow> py_error + json" where
  \<comment> \<open>\<open>value["key"]\<close>\<close>
  "get_key (JObj kvs) k = (case map_of kvs k of None \<Rightarrow> Inl KeyError | Some v \<Rightarrow> Inr v)"
| "get_key v k = Inl TypeError"

fun get_index :: "json \<Rightarrow> nat \<Rightarrow> py_error + json" where
  \<comment> \<open>\<open>value[i]\<close> for \<open>i \<ge> 0\<close>; the keys of a JSON object are texts, never \<open>i\<close>\<close>
  "get_index (JArr xs) i = (if i < length xs then Inr (xs ! i) else Inl IndexError)"
| "get_index (JStr s) i = (if i < length s then Inr (JStr [s ! i]) else Inl IndexError)"
| "get_index (JObj kvs) i = Inl KeyError"
| "get_index v i = Inl TypeError"

fun slice_json :: "nat \<Rightarrow> json \<Rightarrow> py_error + json" where
  \<comment> \<open>\<open>value[:n]\<close>: lists and texts can be sliced, anything else raises\<close>
  "slice_json n (JArr xs) = Inr (JArr (take n xs))"
| "slice_json n (JStr s) = Inr (JStr (take n s))"
| "slice_json n v = Inl TypeError"

definition search_brackets :: "string \<Rightarrow> string option" where
  \<comment> \<open>\<open>re.search(r'\[.*\]', content, re.DOTALL)\<close>: from the first \<open>[\<close> to the last
      \<open>]\<close> after it, if there is one\<close>
  "search_brackets content =
     (let from_open = dropWhile (\<lambda>c. c \<noteq> CHR ''['') content
      in if from_open = [] then None
         else (let inside = rev (dropWhile (\<lambda>c. c \<noteq> CHR '']'') (rev (tl from_open)))
               in if inside = [] then None else Some (CHR ''['' # inside)))"

text \<open>
  \<open>json.loads\<close> is a parameter \<open>loads\<close> of the functions that call it: it returns the
  value of a JSON text and \<open>None\<close> where \<open>json.loads\<close> raises.
\<close>

type_synonym json_loads = "string \<Rightarrow> json option"

definition loads_literals :: json_loads where
  \<comment> \<open>\<open>json.loads\<close> on five short documents, to evaluate examples; on these it
      returns what \<open>json.loads\<close> returns, any other text it leaves unread\<close>
  "loads_literals s =
     (if s = ''null'' then Some JNull
      else if s = ''true'' then Some (JBool True)
      else if s = ''42'' then Some (JNum 42)
      else if s = ''[]'' then Some (JArr [])
      else if s = ''{}'' then Some (JObj [])
      else None)"

text \<open>
  The completion service answers each request with an outcome that the program does not
  control: the connection fails, or a response arrives with a status code and a body,
  which \<open>response.json()\<close> reads as a JSON value or fails to read. The service is the
  sequence of the outcomes of the successive requests. The text of a prompt has no
  effect on the session and is left out; what is kept of building a prompt is whether it
  raises. The list of the requests made so far, each marked with the content it asks
  for, is carried along.
\<close>

datatype http_outcome = ConnectionFailed | HttpResponse nat "json option"

datatype content_kind =
  AcademicTrends | FinancialTips | WellnessTips | CareerInsights | LearningResources
  | News string

type_synonym network = "nat \<Rightarrow> http_outcome"
type_synonym requests = "content_kind list"

record AIAdvisorAgent =
  api_key :: "string option"
  initialized :: bool
  base_url :: string

definition AIAdvisorAgent_init :: "string option \<Rightarrow> AIAdvisorAgent" where
  "AIAdvisorAgent_init key =
     \<lparr>api_key = key, initialized = (key \<noteq> None),
      base_url = ''https://api.groq.com/openai/v1''\<rparr>"

definition set_api_key :: "AIAdvisorAgent \<Rightarrow> string \<Rightarrow> AIAdvisorAgent" where
  "set_api_key self key = self\<lparr>api_key := Some key, initialized := True\<rparr>"

definition make_groq_request ::
  "AIAdvisorAgent \<Rightarrow> network \<Rightarrow> requests \<Rightarrow> content_kind \<Rightarrow> json \<times> requests" where
  \<comment> \<open>\<open>_make_groq_request\<close>: the JSON body of a response with status 200, and
      \<open>None\<close> in every other case; no request is made before the agent has a key\<close>
  "make_groq_request self net made kind =
     (if \<not> initialized self then (JNull, made)
      else (case net (length made) of
              ConnectionFailed \<Rightarrow> (JNull, made @ [kind])
            | HttpResponse status_code body \<Rightarrow>
                if status_code = 200
                then (case body of
                        None \<Rightarrow> (JNull, made @ [kind])
                      | Some v \<Rightarrow> (v, made @ [kind]))
                else (JNull, made @ [kind])))"

definition response_content :: "json \<Rightarrow> py_error + json" where
  \<comment> \<open>\<open>response["choices"][0]["message"]["content"]\<close>\<close>
  "response_content response =
     (case get_key response ''choices'' of
        Inl e \<Rightarrow> Inl e
      | Inr choices \<Rightarrow>
          (case get_index choices 0 of
             Inl e \<Rightarrow> Inl e
           | Inr first_choice \<Rightarrow>
               (case get_key first_choice ''message'' of
                  Inl e \<Rightarrow> Inl e
                | Inr message \<Rightarrow> get_key message ''content'')))"

definition parse_content :: "json_loads \<Rightarrow> json \<Rightarrow> py_error + json" where
  \<comment> \<open>the inner \<open>try\<close>: \<open>re.search\<close> raises TypeError on a content that is no text;
      what \<open>json.loads\<close> returns is returned as it is\<close>
  "parse_content loads content =
     (case content of
        JStr text \<Rightarrow>
          (let extracted = (case search_brackets text of None \<Rightarrow> text | Some m \<Rightarrow> m)
           in case loads extracted of
                None \<Rightarrow> Inl ValueError
              | Some v \<Rightarrow> Inr v)
      | _ \<Rightarrow> Inl TypeError)"

definition request_content ::
  "json_loads \<Rightarrow> AIAdvisorAgent \<Rightarrow> network \<Rightarrow> requests \<Rightarrow> content_kind
     \<Rightarrow> json option \<times> requests" where
  \<comment> \<open>the text every getter repeats, from the request to its \<open>return\<close>s: the value
      returned from the live reply, or \<open>None\<close> where the getter goes on to return its
      fallback (no response, or one of the two handlers)\<close>
  "request_content loads self net made kind =
     (let (response, made') = make_groq_request self net made kind
      in if truthy response
         then (case response_content response of
                 Inl e \<Rightarrow> (None, made')
               | Inr content \<Rightarrow>
                   (case parse_content loads content of
                      Inl e \<Rightarrow> (None, made')
                    | Inr v \<Rightarrow> (Some v, made')))
         else (None, made'))"

definition py_str :: "string option \<Rightarrow> string" where
  \<comment> \<open>\<open>str(x)\<close> of a text or of \<open>None\<close>\<close>
  "py_str x = (case x of None \<Rightarrow> ''None'' | Some s \<Rightarrow> s)"

definition is_engineering :: "string \<Rightarrow> bool" where
  \<comment> \<open>\<open>"B.Tech" in str(degree) or "B.E." in str(degree)\<close>\<close>
  "is_engineering d = (contains_text ''B.Tech'' d \<or> contains_text ''B.E.'' d)"

definition is_business :: "string \<Rightarrow> bool" where
  \<comment> \<open>\<open>"BBA" in str(degree) or "B.Com" in str(degree)\<close>\<close>
  "is_business d = (contains_text ''BBA'' d \<or> contains_text ''B.Com'' d)"

text \<open>The static tables of the fallbacks and of \<open>fetch_trending_news\<close>.\<close>

definition fallback_academic_trends_engineering :: json where
  "fallback_academic_trends_engineering =
     JArr
      [JObj
          [(''trend'', JStr ''Project-Based Learning''),
           (''description'', JStr ''Engineering programs are increasingly adopting project-based approaches that mirror industry practices''),
           (''benefit'', JStr ''Develops practical skills and portfolio for job market'')],
       JObj
          [(''trend'', JStr ''AI & ML Integration''),
           (''description'', JStr ''AI and machine learning concepts are being integrated across engineering disciplines''),
           (''benefit'', JStr ''Prepares students for the most in-demand technical skills'')],
       JObj
          [(''trend'', JStr ''Micro-credentials''),
           (''description'', JStr ''Short, specialized certifications that complement formal degrees''),
           (''benefit'', JStr ''Allows students to demonstrate specific technical competencies to employers'')]]"

definition fallback_academic_trends_business :: json where
  "fallback_academic_trends_business =
     JArr
      [JObj
          [(''trend'', JStr ''Data-Driven Decision Making''),
           (''description'', JStr ''Business curricula now emphasize statistical analysis and data interpretation''),
           (''benefit'', JStr ''Essential skill for modern business operations and strategy'')],
       JObj
          [(''trend'', JStr ''Entrepreneurship Focus''),
           (''description'', JStr ''Programs emphasizing startup methodologies and business model innovation''),
           (''benefit'', JStr ''Prepares students for both corporate and startup environments'')],
       JObj
          [(''trend'', JStr ''Sustainability Management''),
           (''description'', JStr ''Business courses integrating environmental and social impact considerations''),
           (''benefit'', JStr ''Alignment with emerging business priorities and regulations'')]]"

definition fallback_academic_trends_other :: json where
  "fallback_academic_trends_other =
     JArr
      [JObj
          [(''trend'', JStr ''Interdisciplinary Learning''),
           (''description'', JStr ''Programs that blend multiple fields of study for broader perspectives''),
           (''benefit'', JStr ''Develops versatile thinking and adaptability'')],
       JObj
          [(''trend'', JStr ''Digital Literacy Enhancement''),
           (''description'', JStr ''Focused training on digital tools relevant to all disciplines''),
           (''benefit'', JStr ''Essential workplace skills regardless of field'')],
       JObj
          [(''trend'', JStr ''Active Learning Methods''),
           (''description'', JStr ''Techniques that emphasize student participation over passive lectures''),
           (''benefit'', JStr ''Improves retention and practical application of concepts'')]]"

definition fallback_financial_advice_engineering :: json where
  "fallback_financial_advice_engineering =
     JArr
      [JObj
          [(''tip'', JStr ''Leverage Technical Scholarships''),
           (''description'', JStr ''Many engineering-specific scholarships remain unclaimed each year''),
           (''action_item'', JStr ''Apply for AICTE, Siemens, and Google technical scholarships by May 2025'')],
       JObj
          [(''tip'', JStr ''Budget for Technical Resources''),
           (''description'', JStr ''Engineering courses often require specialized software and equipment''),
           (''action_item'', JStr (''Allocate '' @ [CHR 0xE2, CHR 0x82, CHR 0xB9] @ ''2,000-3,000 per semester for technical tools and resources''))],
       JObj
          [(''tip'', JStr ''Consider Technical Freelancing''),
           (''description'', JStr ''Your engineering skills can generate income even while studying''),
           (''action_item'', JStr ''Create profiles on Upwork or Fiverr offering programming or CAD services'')]]"

definition fallback_financial_advice_business :: json where
  "fallback_financial_advice_business =
     JArr
      [JObj
          [(''tip'', JStr ''Invest in Market Knowledge''),
           (''description'', JStr ''Business students benefit from early market exposure''),
           (''action_item'', JStr ''Open a demat account with minimal funds to learn real-world investing'')],
       JObj
          [(''tip'', JStr ''Budget for Business Events''),
           (''description'', JStr ''Networking events and conferences are valuable for business students''),
           (''action_item'', JStr (''Set aside '' @ [CHR 0xE2, CHR 0x82, CHR 0xB9] @ ''5,000 per year for attending industry conferences and events''))],
       JObj
          [(''tip'', JStr ''Content Creation for Income''),
           (''description'', JStr ''Business knowledge is in demand online''),
           (''action_item'', JStr ''Start a business/finance blog or YouTube channel to build both resume and income'')]]"

definition fallback_financial_advice_other :: json where
  "fallback_financial_advice_other =
     JArr
      [JObj
          [(''tip'', JStr ''Education Loan Interest Subsidy''),
           (''description'', JStr ''Government subsidies can reduce your effective interest rate''),
           (''action_item'', JStr ''Check eligibility for interest subsidy schemes through the Vidya Lakshmi portal'')],
       JObj
          [(''tip'', JStr ''Digital Subscription Pooling''),
           (''description'', JStr ''Share costs of educational resources with classmates''),
           (''action_item'', JStr ''Create a subscription pool with 3-4 friends for digital learning platforms'')],
       JObj
          [(''tip'', JStr ''Track Academic Expenses''),
           (''description'', JStr ''Education-related expenses may qualify for tax benefits''),
           (''action_item'', JStr ''Maintain receipts of all educational expenses for potential tax benefits'')]]"

definition fallback_wellness_tips_engineering :: json where
  "fallback_wellness_tips_engineering =
     JArr
      [JObj
          [(''tip'', JStr ''Pomodoro Technique for Technical Studies''),
           (''description'', JStr ''Engineering subjects require intense focus but also regular breaks''),
           (''practice'', JStr ''Study in 25-minute blocks with 5-minute breaks to prevent burnout'')],
       JObj
          [(''tip'', JStr ''Physical Movement Between Coding Sessions''),
           (''description'', JStr ''Long coding sessions can lead to physical strain''),
           (''practice'', JStr ''Do 5 minutes of simple stretches after every hour of programming'')],
       JObj
          [(''tip'', JStr ''Mindfulness for Technical Problem-Solving''),
           (''description'', JStr ''Engineering challenges can create frustration loops''),
           (''practice'', JStr ''When stuck on a problem, practice 2 minutes of deep breathing before continuing'')]]"

definition fallback_wellness_tips_business :: json where
  "fallback_wellness_tips_business =
     JArr
      [JObj
          [(''tip'', JStr ''Presentation Anxiety Management''),
           (''description'', JStr ''Business programs often require frequent presentations''),
           (''practice'', JStr ''Practice the 4-7-8 breathing technique before presentations (inhale for 4, hold for 7, exhale for 8)'')],
       JObj
          [(''tip'', JStr ''Networking Without Exhaustion''),
           (''description'', JStr ''Business networking can be draining for many students''),
           (''practice'', JStr ''Schedule 30-minute quiet time after networking events to recharge'')],
       JObj
          [(''tip'', JStr ''Balancing Competition and Wellbeing''),
           (''description'', JStr ''Business environments can be highly competitive''),
           (''practice'', JStr ''Keep a weekly 'wins journal' to focus on personal growth rather than comparison'')]]"

definition fallback_wellness_tips_other :: json where
  "fallback_wellness_tips_other =
     JArr
      [JObj
          [(''tip'', JStr ''Study-Life Integration''),
           (''description'', JStr ''Balancing academics with personal life is essential for wellbeing''),
           (''practice'', JStr ''Schedule at least 2 hours of non-academic activities you enjoy every week'')],
       JObj
          [(''tip'', JStr ''Morning Routine for Focus''),
           (''description'', JStr ''How you start your day impacts your mental state''),
           (''practice'', JStr ''Begin each day with 10 minutes of quiet reflection before checking your phone'')],
       JObj
          [(''tip'', JStr ''Social Connection Planning''),
           (''description'', JStr ''Regular social connections improve mental health''),
           (''practice'', JStr ''Schedule at least one meaningful social interaction (even if brief) every day'')]]"

definition fallback_career_insights_engineering :: json where
  "fallback_career_insights_engineering =
     JArr
      [JObj
          [(''insight'', JStr ''Specialized Technical Skills Premium''),
           (''trend'', JStr ''Companies are paying 30-40% higher for specialized tech skills beyond the core curriculum''),
           (''action'', JStr ''Identify 2-3 specializations (e.g., cloud, cybersecurity, AI) and develop projects in those areas'')],
       JObj
          [(''insight'', JStr ''Cross-functional Engineering Roles''),
           (''trend'', JStr ''Engineers who can bridge technical and business domains are in high demand''),
           (''action'', JStr ''Take at least one business or product management course alongside technical studies'')],
       JObj
          [(''insight'', JStr ''Open Source Contribution Value''),
           (''trend'', JStr ''Companies increasingly evaluate candidates based on open source contributions''),
           (''action'', JStr ''Contribute to at least one open source project relevant to your field before graduation'')]]"

definition fallback_career_insights_business :: json where
  "fallback_career_insights_business =
     JArr
      [JObj
          [(''insight'', JStr ''Data Analytics for Business Graduates''),
           (''trend'', JStr ''Business analytics roles have increased 70% for commerce graduates''),
           (''action'', JStr ''Learn SQL and basic data visualization tools alongside your business curriculum'')],
       JObj
          [(''insight'', JStr ''FinTech Sector Growth''),
           (''trend'', JStr ''Indian FinTech sector is projected to reach $150 billion by 2025''),
           (''action'', JStr ''Consider specialized courses in digital payments, blockchain, or financial analysis'')],
       JObj
          [(''insight'', JStr ''Sustainability Business Models''),
           (''trend'', JStr ''ESG (Environmental, Social, Governance) roles growing at 45% annually''),
           (''action'', JStr ''Add sustainability-focused projects or certifications to your portfolio'')]]"

definition fallback_career_insights_other :: json where
  "fallback_career_insights_other =
     JArr
      [JObj
          [(''insight'', JStr ''Digital Portfolio Necessity''),
           (''trend'', JStr ''93% of recruiters review candidates' online presence before interviews''),
           (''action'', JStr ''Create a personal website or comprehensive LinkedIn profile showcasing projects and skills'')],
       JObj
          [(''insight'', JStr ''Micro-Internship Growth''),
           (''trend'', JStr ''Short-term, project-based internships becoming standard entry points''),
           (''action'', JStr ''Complete at least 2-3 micro-internships (2-8 weeks) before your final year'')],
       JObj
          [(''insight'', JStr ''Remote Work Readiness''),
           (''trend'', JStr ''Hybrid and remote positions expected to constitute 35% of entry-level jobs''),
           (''action'', JStr ''Develop strong digital collaboration skills and self-management practices'')]]"

definition news_education :: json where
  "news_education =
     JArr
      [JObj
          [(''title'', JStr ''NEP 2020: New Changes Coming for Engineering Programs''),
           (''date'', JStr ''April 5, 2025''),
           (''source'', JStr ''Education Times'')],
       JObj
          [(''title'', JStr ''Top 10 Universities in India Announce Special Scholarships''),
           (''date'', JStr ''April 2, 2025''),
           (''source'', JStr ''India Today'')],
       JObj
          [(''title'', JStr ''Digital Learning Platforms See 45% Growth in Indian Student Adoption''),
           (''date'', JStr ''March 28, 2025''),
           (''source'', JStr ''Tech Education'')]]"

definition news_finance :: json where
  "news_finance =
     JArr
      [JObj
          [(''title'', JStr ''New Government Financial Aid Scheme for STEM Students Announced''),
           (''date'', JStr ''April 6, 2025''),
           (''source'', JStr ''Financial Express'')],
       JObj
          [(''title'', JStr ''Student Credit Card with Special Benefits Launched by SBI''),
           (''date'', JStr ''April 1, 2025''),
           (''source'', JStr ''Banking News'')],
       JObj
          [(''title'', JStr ''How to Apply for Education Loan: Updated Guidelines for 2025''),
           (''date'', JStr ''March 25, 2025''),
           (''source'', JStr ''Student Finance'')]]"

definition news_wellness :: json where
  "news_wellness =
     JArr
      [JObj
          [(''title'', JStr ''Study Shows Direct Link Between Sleep Quality and Exam Performance''),
           (''date'', JStr ''April 4, 2025''),
           (''source'', JStr ''Health Times'')],
       JObj
          [(''title'', JStr ''Campus Mental Health Programs See Positive Results''),
           (''date'', JStr ''March 30, 2025''),
           (''source'', JStr ''Wellness Today'')],
       JObj
          [(''title'', JStr ''Mindfulness Apps Specifically Designed for Student Stress Released''),
           (''date'', JStr ''March 20, 2025''),
           (''source'', JStr ''Digital Wellness'')]]"

definition news_career :: json where
  "news_career =
     JArr
      [JObj
          [(''title'', JStr ''Top In-Demand Skills for 2025 Graduates in India''),
           (''date'', JStr ''April 7, 2025''),
           (''source'', JStr ''Career Guide'')],
       JObj
          [(''title'', JStr ''Major Tech Companies Announce Increased Hiring for Indian Graduates''),
           (''date'', JStr ''April 3, 2025''),
           (''source'', JStr ''Tech Careers'')],
       JObj
          [(''title'', JStr ''Remote Work Opportunities for Students Rise by 60%''),
           (''date'', JStr ''March 29, 2025''),
           (''source'', JStr ''Future of Work'')]]"

definition news_resources :: json where
  "news_resources =
     JArr
      [JObj
          [(''title'', JStr ''5 New Digital Libraries Offering Free Resources to Indian Students''),
           (''date'', JStr ''April 6, 2025''),
           (''source'', JStr ''Education Resources'')],
       JObj
          [(''title'', JStr ''NPTEL Launches 50 New Free Certification Courses''),
           (''date'', JStr ''April 2, 2025''),
           (''source'', JStr ''Online Learning'')],
       JObj
          [(''title'', JStr ''Government Launches National Digital Skills Portal for Students''),
           (''date'', JStr ''March 28, 2025''),
           (''source'', JStr ''Digital India'')]]"

definition news_data :: "(string \<times> json) list" where
  \<comment> \<open>the dictionary \<open>news_data\<close> of \<open>fetch_trending_news\<close>\<close>
  "news_data =
     [(''education'', news_education),
      (''finance'', news_finance),
      (''wellness'', news_wellness),
      (''career'', news_career),
      (''resources'', news_resources)]"

definition get_fallback_academic_trends :: "string option \<Rightarrow> json" where
  "get_fallback_academic_trends deg =
     (if is_engineering (py_str deg) then fallback_academic_trends_engineering
      else if is_business (py_str deg) then fallback_academic_trends_business
      else fallback_academic_trends_other)"

definition get_academic_trends ::
  "json_loads \<Rightarrow> AIAdvisorAgent \<Rightarrow> network \<Rightarrow> requests \<Rightarrow> string option \<Rightarrow> string option
     \<Rightarrow> json \<times> requests" where
  "get_academic_trends loads self net made deg year =
     (if \<not> initialized self then (get_fallback_academic_trends deg, made)
      else (case request_content loads self net made AcademicTrends of
              (Some trends, made') \<Rightarrow> (trends, made')
            | (None, made') \<Rightarrow> (get_fallback_academic_trends deg, made')))"

text \<open>
  The other getters take the dictionary \<open>{"degree", "year_of_study", "college"}\<close> that
  \<open>update_content_cache\<close> builds.
\<close>

record profile_context =
  ctx_degree :: "string option"
  ctx_year_of_study :: "string option"
  ctx_college :: "string option"

definition get_fallback_financial_advice :: "profile_context \<Rightarrow> json" where
  "get_fallback_financial_advice profile =
     (let deg = get_or (ctx_degree profile) []
      in if is_engineering deg then fallback_financial_advice_engineering
         else if is_business deg then fallback_financial_advice_business
         else fallback_financial_advice_other)"

definition financial_summary_raises :: "transaction list option \<Rightarrow> bool" where
  \<comment> \<open>building the prompt reads \<open>t['amount']\<close> of every transaction when the list is
      not empty: KeyError where a transaction has no amount\<close>
  "financial_summary_raises financial_data =
     (case financial_data of
        None \<Rightarrow> False
      | Some ts \<Rightarrow> list_ex (\<lambda>t. amount t = None) ts)"

definition get_financial_advice ::
  "json_loads \<Rightarrow> AIAdvisorAgent \<Rightarrow> network \<Rightarrow> requests \<Rightarrow> profile_context
     \<Rightarrow> transaction list option \<Rightarrow> json \<times> requests" where
  "get_financial_advice loads self net made profile financial_data =
     (if \<not> initialized self then (get_fallback_financial_advice profile, made)
      else if financial_summary_raises financial_data
      then (get_fallback_financial_advice profile, made)
      else (case request_content loads self net made FinancialTips of
              (Some advice, made') \<Rightarrow> (advice, made')
            | (None, made') \<Rightarrow> (get_fallback_financial_advice profile, made')))"

definition get_fallback_wellness_tips :: "profile_context \<Rightarrow> json" where
  "get_fallback_wellness_tips profile =
     (let deg = get_or (ctx_degree profile) []
      in if is_engineering deg then fallback_wellness_tips_engineering
         else if is_business deg then fallback_wellness_tips_business
         else fallback_wellness_tips_other)"

definition get_wellness_tips ::
  "json_loads \<Rightarrow> AIAdvisorAgent \<Rightarrow> network \<Rightarrow> requests \<Rightarrow> profile_context
     \<Rightarrow> json \<times> requests" where
  \<comment> \<open>the mood history only enters the prompt, and summarising it raises nothing\<close>
  "get_wellness_tips loads self net made profile =
     (if \<not> initialized self then (get_fallback_wellness_tips profile, made)
      else (case request_content loads self net made WellnessTips of
              (Some tips, made') \<Rightarrow> (tips, made')
            | (None, made') \<Rightarrow> (get_fallback_wellness_tips profile, made')))"

definition get_fallback_career_insights :: "profile_context \<Rightarrow> json" where
  "get_fallback_career_insights profile =
     (let deg = get_or (ctx_degree profile) []
      in if is_engineering deg then fallback_career_insights_engineering
         else if is_business deg then fallback_career_insights_business
         else fallback_career_insights_other)"

definition get_career_insights ::
  "json_loads \<Rightarrow> AIAdvisorAgent \<Rightarrow> network \<Rightarrow> requests \<Rightarrow> profile_context
     \<Rightarrow> json \<times> requests" where
  \<comment> \<open>the career preferences only enter the prompt, and summarising them raises
      nothing\<close>
  "get_career_insights loads self net made profile =
     (if \<not> initialized self then (get_fallback_career_insights profile, made)
      else (case request_content loads self net made CareerInsights of
              (Some insights, made') \<Rightarrow> (insights, made')
            | (None, made') \<Rightarrow> (get_fallback_career_insights profile, made')))"

text \<open>
  \<open>st.session_state.cached_content\<close>: the four payloads and \<open>last_updated\<close>, which
  start as \<open>None\<close>, the dictionary of resources, and the news payloads, stored under
  keys \<open><topic>_news\<close> that are added as they are written.
\<close>

record cached_content =
  academic_trends :: json
  financial_tips :: json
  wellness_tips :: json
  career_insights :: json
  resources :: "(string \<times> json) list"
  news_items :: "(string \<times> json) list"
  last_updated :: "datetime option"

definition initial_cached_content :: cached_content where
  "initial_cached_content =
     \<lparr>academic_trends = JNull, financial_tips = JNull, wellness_tips = JNull,
      career_insights = JNull, resources = [], news_items = [], last_updated = None\<rparr>"

fun set_item :: "(string \<times> json) list \<Rightarrow> string \<Rightarrow> json \<Rightarrow> (string \<times> json) list" where
  \<comment> \<open>\<open>d[k] = v\<close>\<close>
  "set_item [] k v = [(k, v)]"
| "set_item ((k', v') # d) k v = (if k' = k then (k', v) # d else (k', v') # set_item d k v)"

definition fetch_trending_news :: "cached_content \<Rightarrow> string \<Rightarrow> py_error + json" where
  \<comment> \<open>with the default \<open>max_items=3\<close>\<close>
  "fetch_trending_news cache topic =
     (case map_of (news_items cache) (topic @ ''_news'') of
        Some v \<Rightarrow>
          if truthy v then slice_json 3 v
          else slice_json 3 (case map_of news_data topic of None \<Rightarrow> JArr [] | Some items \<Rightarrow> items)
      | None \<Rightarrow>
          slice_json 3 (case map_of news_data topic of None \<Rightarrow> JArr [] | Some items \<Rightarrow> items))"

definition get_latest_news ::
  "json_loads \<Rightarrow> AIAdvisorAgent \<Rightarrow> network \<Rightarrow> requests \<Rightarrow> cached_content \<Rightarrow> string
     \<Rightarrow> (py_error + json) \<times> requests" where
  \<comment> \<open>the fallback is \<open>fetch_trending_news\<close>; when it raises, the outer handler calls
      it again and the exception leaves the getter\<close>
  "get_latest_news loads self net made cache topic =
     (if \<not> initialized self then (fetch_trending_news cache topic, made)
      else (case request_content loads self net made (News topic) of
              (Some news, made') \<Rightarrow> (Inr news, made')
            | (None, made') \<Rightarrow> (fetch_trending_news cache topic, made')))"

record StudentProfile =
  sp_student_id :: string
  sp_profile_data :: profile_data

definition get_degree :: "StudentProfile \<Rightarrow> string" where
  "get_degree self = get_or (degree (sp_profile_data self)) ''Degree''"

definition get_year_of_study :: "StudentProfile \<Rightarrow> string" where
  "get_year_of_study self = get_or (year_of_study (sp_profile_data self)) ''1st Year''"

definition get_college_name :: "StudentProfile \<Rightarrow> string" where
  "get_college_name self = get_or (college_name (sp_profile_data self)) ''College''"

text \<open>
  Of \<open>st.session_state\<close> the refresh reads the profile, the agent, the cache and the
  planner, an optional field being a key that is not in the session (for the profile:
  the value \<open>None\<close>). The wellness coach and the career guide are read only to fill the
  prompts and are not part of the model.
\<close>

record session_state =
  ss_student_profile :: "StudentProfile option"
  ai_agent :: AIAdvisorAgent
  cached :: cached_content
  financial_planner :: "FinancialPlanner option"

fun update_news ::
  "json_loads \<Rightarrow> AIAdvisorAgent \<Rightarrow> network \<Rightarrow> string list \<Rightarrow> cached_content \<times> requests
     \<Rightarrow> py_error option \<times> cached_content \<times> requests" where
  \<comment> \<open>the assignments \<open>cached_content["<category>_news"] = get_latest_news(category)\<close>,
      one category after the other; an exception ends them and keeps what was stored\<close>
  "update_news loads agent net [] (c, made) = (None, c, made)"
| "update_news loads agent net (topic # topics) (c, made) =
     (case get_latest_news loads agent net made c topic of
        (Inl e, made') \<Rightarrow> (Some e, c, made')
      | (Inr news, made') \<Rightarrow>
          update_news loads agent net topics
            (c\<lparr>news_items := set_item (news_items c) (topic @ ''_news'') news\<rparr>, made'))"

definition update_content_cache ::
  "json_loads \<Rightarrow> network \<Rightarrow> bool \<Rightarrow> datetime \<Rightarrow> session_state \<times> requests
     \<Rightarrow> session_state \<times> requests" where
  \<comment> \<open>\<open>now\<close> is the reading of the clock at the start of the call\<close>
  "update_content_cache loads net force now state =
     (let (st, made) = state;
          current_time = now
      in if \<not> force \<and> (case last_updated (cached st) of
                          None \<Rightarrow> False
                        | Some updated \<Rightarrow> days (current_time - updated) < 1)
         then (st, made)
         else if \<not> initialized (ai_agent st) then (st, made)
         else
           (case ss_student_profile st of
              None \<Rightarrow> (st, made)
            | Some profile \<Rightarrow>
                (let profile_data = \<lparr>ctx_degree = Some (get_degree profile),
                                      ctx_year_of_study = Some (get_year_of_study profile),
                                      ctx_college = Some (get_college_name profile)\<rparr>;
                     agent = ai_agent st;
                     (trends, made1) = get_academic_trends loads agent net made
                                         (ctx_degree profile_data) (ctx_year_of_study profile_data);
                     c1 = (cached st)\<lparr>academic_trends := trends\<rparr>;
                     financial_data = (case financial_planner st of
                                         None \<Rightarrow> None
                                       | Some planner \<Rightarrow> Some (get_all_transactions planner));
                     (advice, made2) = get_financial_advice loads agent net made1 profile_data
                                         financial_data;
                     c2 = c1\<lparr>financial_tips := advice\<rparr>;
                     (tips, made3) = get_wellness_tips loads agent net made2 profile_data;
                     c3 = c2\<lparr>wellness_tips := tips\<rparr>;
                     (insights, made4) = get_career_insights loads agent net made3 profile_data;
                     c4 = c3\<lparr>career_insights := insights\<rparr>
                 in case update_news loads agent net
                           [''education'', ''finance'', ''wellness'', ''career''] (c4, made4) of
                      (Some e, c5, made5) \<Rightarrow> (st\<lparr>cached := c5\<rparr>, made5)
                    | (None, c5, made5) \<Rightarrow>
                        (st\<lparr>cached := c5\<lparr>last_updated := Some current_time\<rparr>\<rparr>, made5))))"

section \<open>Example data for the content cache\<close>

definition reply_with :: "string \<Rightarrow> http_outcome" where
  \<comment> \<open>a response with status 200 whose first choice carries the given text\<close>
  "reply_with text =
     HttpResponse 200
       (Some (JObj [(''choices'',
                     JArr [JObj [(''index'', JNum 0),
                                 (''message'', JObj [(''role'', JStr ''assistant''),
                                                     (''content'', JStr text)])]])]))"

definition example_agent :: AIAdvisorAgent where
  "example_agent = set_api_key (AIAdvisorAgent_init None) ''gsk_example''"

definition example_profile :: StudentProfile where
  "example_profile =
     \<lparr>sp_student_id = ''s1'',
      sp_profile_data = \<lparr>full_name = Some ''Asha'', college_name = Some ''College'',
                          degree = Some ''B.Tech Computer Science'',
                          year_of_study = Some ''2nd Year''\<rparr>\<rparr>"

definition example_session :: session_state where
  \<comment> \<open>a session after login with an API key, before any refresh\<close>
  "example_session =
     \<lparr>ss_student_profile = Some example_profile, ai_agent = example_agent,
      cached = initial_cached_content, financial_planner = None\<rparr>"

definition unreachable_service :: network where
  "unreachable_service = (\<lambda>n. ConnectionFailed)"


definition odd_service :: network where
  \<comment> \<open>the fifth request is answered with the text \<open>42\<close>, every other request fails\<close>
  "odd_service = (\<lambda>n. if n = 4 then reply_with ''42'' else ConnectionFailed)"

text \<open>
  A stored news payload that \<open>fetch_trending_news\<close> can slice: none, or a list.
\<close>

definition sliceable :: "(string \<times> json) list \<Rightarrow> string \<Rightarrow> bool" where
  "sliceable items topic \<longleftrightarrow>
     (case map_of items (topic @ ''_news'') of None \<Rightarrow> True | Some v \<Rightarrow> (\<exists>xs. v = JArr xs))"

text \<open>
  Three refreshes of the example session without \<open>force\<close>: the first at the example
  clock reading, the second one day later, the third a microsecond after the second.
\<close>

definition after_first_refresh :: "session_state \<times> requests" where
  "after_first_refresh =
     update_content_cache loads_literals odd_service False example_now (example_session, [])"

definition after_second_refresh :: "session_state \<times> requests" where
  "after_second_refresh =
     update_content_cache loads_literals odd_service False (example_now + timedelta_days 1)
       after_first_refresh"

definition after_third_refresh :: "session_state \<times> requests" where
  "after_third_refresh =
     update_content_cache loads_literals odd_service False (example_now + timedelta_days 1 + 1)
       after_second_refresh"

section \<open>Properties of the academic tracker\<close>

lemma sum_list_map_mset_cong:
  fixes f :: "'a \<Rightarrow> 'b::comm_monoid_add"
  assumes "mset xs = mset ys"
  shows "sum_list (map f xs) = sum_list (map f ys)"
proof -
  have "sum_mset (image_mset f (mset xs)) = sum_mset (image_mset f (mset ys))"
    using assms by simp
  then show ?thesis
    by (metis mset_map sum_mset_sum_list)
qed

lemma total_credits_sorted: "total_credits (py_sorted k False perf) = total_credits perf"
  unfolding total_credits_def py_sorted_def
  by (simp add: sum_list_map_mset_cong [of "sort_key k perf" perf])

lemma weighted_sum_sorted: "weighted_sum (py_sorted k False perf) = weighted_sum perf"
  unfolding weighted_sum_def py_sorted_def
  by (simp add: sum_list_map_mset_cong [of "sort_key k perf" perf])

lemma py_sorted_Nil_iff: "py_sorted k r xs = [] \<longleftrightarrow> xs = []"
proof -
  have "length (py_sorted k r xs) = length xs"
    by (simp add: py_sorted_def)
  then show ?thesis
    by (metis length_0_conv)
qed

lemma calculate_cgpa_value:
  assumes "sgpa performance_data = Some s" and "credits performance_data = Some c"
    and "0 \<le> total_credits perf + c"
  shows "calculate_cgpa perf performance_data =
           Inr (performance_data\<lparr>cgpa := Some
             (if perf = [] then s
              else if total_credits perf + c = 0 then 0
              else (weighted_sum perf + s * of_int c) / of_int (total_credits perf + c))\<rparr>)"
proof (cases "perf = []")
  case True
  then show ?thesis
    using assms by (simp add: calculate_cgpa_def py_sorted_def)
next
  case False
  show ?thesis
  proof (cases "total_credits perf + c = 0")
    case True
    with False assms show ?thesis
      by (simp add: calculate_cgpa_def py_sorted_Nil_iff total_credits_sorted Let_def)
  next
    case nz: False
    with assms(3) have pos: "0 < total_credits perf + c" by simp
    with False nz assms(1,2) show ?thesis
      by (simp add: calculate_cgpa_def py_sorted_Nil_iff total_credits_sorted
            weighted_sum_sorted Let_def py_truediv_def)
  qed
qed

text \<open>
  Claim C1. \<open>add_semester_performance\<close> on a record that has \<open>sgpa\<close> and \<open>credits\<close>
  stores the record, at the end of the performance list, with this \<open>cgpa\<close>: the record's
  own \<open>sgpa\<close> when the list was empty; otherwise the credit-weighted sum of all
  \<open>sgpa\<close> values, the new one included, divided by the total of the credits, and 0
  when that total is 0. The call returns normally: no ZeroDivisionError. Credits are
  counts, so the total is taken not to be negative.
\<close>

theorem add_semester_performance_cgpa:
  assumes "sgpa performance_data = Some s" and "credits performance_data = Some c"
    and "0 \<le> total_credits (performance self) + c"
  shows "\<exists>fs' success.
           add_semester_performance self fs performance_data writable =
             Inr (self\<lparr>performance := performance self @ [performance_data\<lparr>cgpa := Some
                    (if performance self = [] then s
                     else if total_credits (performance self) + c = 0 then 0
                     else (weighted_sum (performance self) + s * of_int c)
                          / of_int (total_credits (performance self) + c))\<rparr>]\<rparr>,
                  fs', success)"
  unfolding add_semester_performance_def
  by (simp add: calculate_cgpa_value [OF assms] Let_def split: prod.splits)

theorem add_semester_performance_cgpa_witness:
  "sgpa \<lparr>semester = Some ''Semester 2'', semester_index = Some 2, sgpa = Some (42 / 5),
          credits = Some 22, cgpa = None, date_added = None\<rparr> = Some (42 / 5)
   \<and> credits \<lparr>semester = Some ''Semester 2'', semester_index = Some 2, sgpa = Some (42 / 5),
          credits = Some 22, cgpa = None, date_added = None\<rparr> = Some 22
   \<and> 0 \<le> total_credits (performance
          \<lparr>at_student_id = ''s1'', at_data_manager = DataManager_init ''data'' :: unit DataManager,
           performance = [\<lparr>semester = Some ''Semester 1'', semester_index = Some 1,
             sgpa = Some 8, credits = Some 20, cgpa = Some 8, date_added = None\<rparr>]\<rparr>) + 22
   \<and> (\<exists>fs' success.
         add_semester_performance
           \<lparr>at_student_id = ''s1'', at_data_manager = DataManager_init ''data'' :: unit DataManager,
            performance = [\<lparr>semester = Some ''Semester 1'', semester_index = Some 1,
              sgpa = Some 8, credits = Some 20, cgpa = Some 8, date_added = None\<rparr>]\<rparr>
           Map.empty
           \<lparr>semester = Some ''Semester 2'', semester_index = Some 2, sgpa = Some (42 / 5),
            credits = Some 22, cgpa = None, date_added = None\<rparr>
           True
         = Inr (\<lparr>at_student_id = ''s1'', at_data_manager = DataManager_init ''data'',
                 performance =
                   [\<lparr>semester = Some ''Semester 1'', semester_index = Some 1,
                      sgpa = Some 8, credits = Some 20, cgpa = Some 8, date_added = None\<rparr>,
                    \<lparr>semester = Some ''Semester 2'', semester_index = Some 2,
                      sgpa = Some (42 / 5), credits = Some 22, cgpa = Some (862 / 105),
                      date_added = None\<rparr>]\<rparr>,
                fs', success))"
proof -
  let ?pd = "\<lparr>semester = Some ''Semester 2'', semester_index = Some 2, sgpa = Some (42 / 5),
          credits = Some 22, cgpa = None, date_added = None\<rparr>"
  let ?self = "\<lparr>at_student_id = ''s1'', at_data_manager = DataManager_init ''data'' :: unit DataManager,
           performance = [\<lparr>semester = Some ''Semester 1'', semester_index = Some 1,
             sgpa = Some 8, credits = Some 20, cgpa = Some 8, date_added = None\<rparr>]\<rparr>"
  have h1: "sgpa ?pd = Some (42 / 5)" and h2: "credits ?pd = Some 22" by simp_all
  have h3: "0 \<le> total_credits (performance ?self) + 22"
    by (simp add: total_credits_def get_or_def)
  from add_semester_performance_cgpa [OF h1 h2 h3, of Map.empty True] h1 h2 h3
  show ?thesis
    by (simp add: total_credits_def weighted_sum_def get_or_def)
qed

lemma max_from_mem: "max_from key best xs \<in> set (best # xs)"
  by (induction xs arbitrary: best) auto

lemma max_from_ge: "e \<in> set (best # xs) \<Longrightarrow> key e \<le> key (max_from key best xs)"
proof (induction xs arbitrary: best e)
  case Nil
  then show ?case by simp
next
  case (Cons x xs)
  let ?b = "if key best < key x then x else best"
  have step: "key best \<le> key (max_from key ?b xs)" "key x \<le> key (max_from key ?b xs)"
  proof -
    have "?b \<in> set (?b # xs)" by simp
    from Cons.IH [OF this] have "key ?b \<le> key (max_from key ?b xs)" .
    then show "key best \<le> key (max_from key ?b xs)" "key x \<le> key (max_from key ?b xs)"
      by (auto split: if_splits)
  qed
  from Cons.prems consider "e = best" | "e = x" | "e \<in> set xs" by auto
  then show ?case
  proof cases
    case 3
    then have "e \<in> set (?b # xs)" by simp
    from Cons.IH [OF this] show ?thesis by simp
  qed (use step in simp_all)
qed

lemma py_max_greatest:
  assumes "xs \<noteq> []"
  shows "\<exists>m \<in> set xs. py_max key xs = Inr m \<and> (\<forall>e \<in> set xs. key e \<le> key m)"
proof -
  from assms obtain x rest where xs: "xs = x # rest"
    by (cases xs) auto
  show ?thesis
    unfolding xs py_max_def
    using max_from_mem [of key x rest] max_from_ge [of _ x rest key]
    by auto
qed

lemma py_max_permuted:
  assumes "mset ys = mset xs" and "distinct (map key xs)" and "xs \<noteq> []"
  shows "py_max key ys = py_max key xs"
proof -
  have sets: "set ys = set xs"
    using assms(1) by (metis set_mset_mset)
  then have "ys \<noteq> []" using assms(3) by auto
  then obtain m where m: "m \<in> set ys" "py_max key ys = Inr m" "\<forall>e \<in> set ys. key e \<le> key m"
    using py_max_greatest by blast
  obtain n where n: "n \<in> set xs" "py_max key xs = Inr n" "\<forall>e \<in> set xs. key e \<le> key n"
    using py_max_greatest [OF assms(3)] by blast
  have "key m = key n"
    using m n sets by (metis order_antisym)
  moreover have "inj_on key (set xs)"
    using assms(2) by (simp add: distinct_map)
  ultimately have "m = n"
    using m(1) n(1) sets by (auto dest: inj_onD)
  then show ?thesis using m(2) n(2) by simp
qed

text \<open>
  Claim C7. On a non-empty performance list \<open>get_current_cgpa\<close> returns the \<open>cgpa\<close> of
  an entry whose \<open>semester_index\<close> is the greatest in the list, an absent index counting
  as 0 (and an absent \<open>cgpa\<close> as 0). The order of insertion does not matter: a tracker
  holding the same entries in another order returns the same value, the indices being
  distinct.
\<close>

theorem get_current_cgpa_highest_index:
  assumes "performance self \<noteq> []"
  shows "(\<exists>latest \<in> set (performance self).
            (\<forall>e \<in> set (performance self).
               get_or (semester_index e) 0 \<le> get_or (semester_index latest) 0)
            \<and> get_current_cgpa self = Inr (get_or (cgpa latest) 0))
         \<and> (\<forall>other. mset (performance other) = mset (performance self)
                \<and> distinct (map (\<lambda>e. get_or (semester_index e) 0) (performance self))
              \<longrightarrow> get_current_cgpa other = get_current_cgpa self)"
proof (intro conjI allI impI)
  obtain m where m: "m \<in> set (performance self)"
      "py_max (\<lambda>x. get_or (semester_index x) 0) (performance self) = Inr m"
      "\<forall>e \<in> set (performance self). get_or (semester_index e) 0 \<le> get_or (semester_index m) 0"
    using py_max_greatest [OF assms] by blast
  then show "\<exists>latest \<in> set (performance self).
            (\<forall>e \<in> set (performance self).
               get_or (semester_index e) 0 \<le> get_or (semester_index latest) 0)
            \<and> get_current_cgpa self = Inr (get_or (cgpa latest) 0)"
    using assms by (auto simp: get_current_cgpa_def)
next
  fix other :: "'b AcademicTracker"
  assume h: "mset (performance other) = mset (performance self)
              \<and> distinct (map (\<lambda>e. get_or (semester_index e) 0) (performance self))"
  then have "py_max (\<lambda>x. get_or (semester_index x) 0) (performance other)
             = py_max (\<lambda>x. get_or (semester_index x) 0) (performance self)"
    using py_max_permuted assms by blast
  moreover have "performance other \<noteq> []"
    using h assms by (metis mset_zero_iff)
  ultimately show "get_current_cgpa other = get_current_cgpa self"
    using assms by (simp add: get_current_cgpa_def)
qed

theorem get_current_cgpa_highest_index_witness:
  "performance
     \<lparr>at_student_id = ''s1'', at_data_manager = DataManager_init ''data'' :: unit DataManager,
      performance =
        [\<lparr>semester = None, semester_index = Some 2, sgpa = None, credits = None,
            cgpa = Some (81 / 10), date_added = None\<rparr>,
         \<lparr>semester = None, semester_index = Some 3, sgpa = None, credits = None,
            cgpa = Some (42 / 5), date_added = None\<rparr>,
         \<lparr>semester = None, semester_index = Some 1, sgpa = None, credits = None,
            cgpa = Some (39 / 5), date_added = None\<rparr>]\<rparr> \<noteq> []
   \<and> mset (performance
        \<lparr>at_student_id = ''s1'', at_data_manager = DataManager_init ''data'' :: unit DataManager,
         performance =
           [\<lparr>semester = None, semester_index = Some 1, sgpa = None, credits = None,
               cgpa = Some (39 / 5), date_added = None\<rparr>,
            \<lparr>semester = None, semester_index = Some 2, sgpa = None, credits = None,
               cgpa = Some (81 / 10), date_added = None\<rparr>,
            \<lparr>semester = None, semester_index = Some 3, sgpa = None, credits = None,
               cgpa = Some (42 / 5), date_added = None\<rparr>]\<rparr>)
     = mset (performance
        \<lparr>at_student_id = ''s1'', at_data_manager = DataManager_init ''data'' :: unit DataManager,
         performance =
           [\<lparr>semester = None, semester_index = Some 2, sgpa = None, credits = None,
               cgpa = Some (81 / 10), date_added = None\<rparr>,
            \<lparr>semester = None, semester_index = Some 3, sgpa = None, credits = None,
               cgpa = Some (42 / 5), date_added = None\<rparr>,
            \<lparr>semester = None, semester_index = Some 1, sgpa = None, credits = None,
               cgpa = Some (39 / 5), date_added = None\<rparr>]\<rparr>)
   \<and> get_current_cgpa
        \<lparr>at_student_id = ''s1'', at_data_manager = DataManager_init ''data'' :: unit DataManager,
         performance =
           [\<lparr>semester = None, semester_index = Some 1, sgpa = None, credits = None,
               cgpa = Some (39 / 5), date_added = None\<rparr>,
            \<lparr>semester = None, semester_index = Some 2, sgpa = None, credits = None,
               cgpa = Some (81 / 10), date_added = None\<rparr>,
            \<lparr>semester = None, semester_index = Some 3, sgpa = None, credits = None,
               cgpa = Some (42 / 5), date_added = None\<rparr>]\<rparr>
     = get_current_cgpa
        \<lparr>at_student_id = ''s1'', at_data_manager = DataManager_init ''data'' :: unit DataManager,
         performance =
           [\<lparr>semester = None, semester_index = Some 2, sgpa = None, credits = None,
               cgpa = Some (81 / 10), date_added = None\<rparr>,
            \<lparr>semester = None, semester_index = Some 3, sgpa = None, credits = None,
               cgpa = Some (42 / 5), date_added = None\<rparr>,
            \<lparr>semester = None, semester_index = Some 1, sgpa = None, credits = None,
               cgpa = Some (39 / 5), date_added = None\<rparr>]\<rparr>
   \<and> get_current_cgpa
        \<lparr>at_student_id = ''s1'', at_data_manager = DataManager_init ''data'' :: unit DataManager,
         performance =
           [\<lparr>semester = None, semester_index = Some 2, sgpa = None, credits = None,
               cgpa = Some (81 / 10), date_added = None\<rparr>,
            \<lparr>semester = None, semester_index = Some 3, sgpa = None, credits = None,
               cgpa = Some (42 / 5), date_added = None\<rparr>,
            \<lparr>semester = None, semester_index = Some 1, sgpa = None, credits = None,
               cgpa = Some (39 / 5), date_added = None\<rparr>]\<rparr>
     = Inr (42 / 5)"
proof -
  let ?e1 = "\<lparr>semester = None, semester_index = Some 1, sgpa = None, credits = None,
               cgpa = Some (39 / 5), date_added = None\<rparr>"
  let ?e2 = "\<lparr>semester = None, semester_index = Some 2, sgpa = None, credits = None,
               cgpa = Some (81 / 10), date_added = None\<rparr>"
  let ?e3 = "\<lparr>semester = None, semester_index = Some 3, sgpa = None, credits = None,
               cgpa = Some (42 / 5), date_added = None\<rparr>"
  let ?self = "\<lparr>at_student_id = ''s1'', at_data_manager = DataManager_init ''data'' :: unit DataManager,
         performance = [?e2, ?e3, ?e1]\<rparr>"
  let ?other = "\<lparr>at_student_id = ''s1'', at_data_manager = DataManager_init ''data'' :: unit DataManager,
         performance = [?e1, ?e2, ?e3]\<rparr>"
  have ne: "performance ?self \<noteq> []" by simp
  have perm: "mset (performance ?other) = mset (performance ?self)" by simp
  have dist: "distinct (map (\<lambda>e. get_or (semester_index e) 0) (performance ?self))"
    by (simp add: get_or_def)
  from get_current_cgpa_highest_index [OF ne] perm dist
  have "get_current_cgpa ?other = get_current_cgpa ?self" by blast
  moreover have "get_current_cgpa ?self = Inr (42 / 5)"
    by (simp add: get_current_cgpa_def py_max_def get_or_def)
  ultimately show ?thesis using ne perm by simp
qed

section \<open>Properties of the data manager and the financial planner\<close>

lemma get_data_no_attribute: "data self = None \<Longrightarrow> get_data self student_id data_type dflt = dflt"
  by (simp add: get_data_def get_data_try_def)

lemma group_by_category_Nil: "group_by_category [] = []"
  by (simp add: group_by_category_def)

text \<open>
  Claim C10. On a \<open>DataManager\<close> as its constructor makes it, \<open>get_data\<close> returns the
  default it was given, for every student and data type: the attribute \<open>data\<close> does not
  exist, the read raises and the handler returns the default. A planner over such a
  manager therefore gets the empty list from \<open>get_all_transactions\<close> and from
  \<open>get_expenses_by_category\<close>, also after \<open>add_transaction\<close> has stored a transaction
  through \<open>save_data\<close>.
\<close>

theorem get_data_returns_default:
  "get_data (DataManager_init dir) student_id data_type dflt = dflt
   \<and> get_all_transactions (planner\<lparr>fp_data_manager := DataManager_init dir\<rparr>) = []
   \<and> get_expenses_by_category (planner\<lparr>fp_data_manager := DataManager_init dir\<rparr>) = []
   \<and> get_all_transactions
        (fst (add_transaction (planner\<lparr>fp_data_manager := DataManager_init dir\<rparr>)
                fs t uuid now writable)) = []
   \<and> get_expenses_by_category
        (fst (add_transaction (planner\<lparr>fp_data_manager := DataManager_init dir\<rparr>)
                fs t uuid now writable)) = []"
  by (simp add: get_data_no_attribute DataManager_init_def get_all_transactions_def
        get_expenses_by_category_def group_by_category_Nil py_sorted_def add_transaction_def
        Let_def split: prod.splits)

section \<open>Properties of the financial planner and the wellness coach\<close>

lemma sum_add_to_category: "sum_list (map snd (add_to_category d c a)) = sum_list (map snd d) + a"
  by (induction d c a rule: add_to_category.induct) auto

lemma sum_foldl_add_to_category:
  "sum_list (map snd (foldl (\<lambda>d t. add_to_category d (k t) (v t)) d0 ts))
     = sum_list (map snd d0) + sum_list (map v ts)"
  by (induction ts arbitrary: d0) (auto simp: sum_add_to_category)

lemma sum_group_by_category:
  "sum_list (map snd (group_by_category ts)) = (\<Sum>t\<leftarrow>ts. \<bar>get_or (amount t) 0\<bar>)"
  unfolding group_by_category_def by (simp add: sum_foldl_add_to_category)

text \<open>
  What \<open>get_budget_adherence\<close> computes: the clamped percentage of the budget total
  left by the expenses whose date text is not below the ISO text of the first instant of
  the current month. Regrouping the amounts by category does not change their total.
\<close>

lemma get_budget_adherence_value:
  "get_budget_adherence self now =
     Inr (if budget self = [] \<or> sum_list (map snd (budget self)) = 0 then 0
          else max 0 (min 100
                 ((1 - (\<Sum>t\<leftarrow>filter (\<lambda>t. month_start_iso now \<le> get_or (date t) []
                                            \<and> get_or (amount t) 0 < 0) (transactions self).
                          \<bar>get_or (amount t) 0\<bar>)
                       / sum_list (map snd (budget self))) * 100)))"
  by (simp add: get_budget_adherence_def get_actual_spending_def sum_group_by_category
        py_truediv_def Let_def)

lemma month_start_example: "month_start_iso example_now = ''2025-04-01T00:00:00''"
  unfolding example_now_def by code_simp

text \<open>
  Claim C2. Budget adherence is \<open>max(0, min(100, (1 - spent / budget) * 100))\<close>, where
  \<open>spent\<close> totals the expenses dated within the current calendar month, so a budget of
  1000 spent in full gives 0. The code compares date texts with \<open>2025-04-01T00:00:00\<close>
  in April 2025 (the example clock reads 2025-04-10T09:30:15.000250), and the date \<open>2025-04-01\<close>, which the transaction form writes without
  a time, is below it: the expense of the first day of the month is left out and the
  result is 100.
\<close>

theorem get_budget_adherence_first_day_of_month:
  "month_start_iso example_now = ''2025-04-01T00:00:00''
   \<and> get_budget_adherence
       \<lparr>fp_student_id = ''s1'', fp_data_manager = DataManager_init ''data'',
        transactions =
          [\<lparr>amount = Some (- 1000), txn_description = Some ''Groceries'',
             category = Some ''Food'', date = Some ''2025-04-01'',
             txn_type = Some ''expense'', transaction_id = None, created_at = None\<rparr>],
        budget = [(''Food'', 1000)]\<rparr>
       example_now
     = Inr 100"
  by (simp add: get_budget_adherence_value month_start_example get_or_def)

text \<open>
  The first sample record shows the draw that made it.
\<close>

lemma sample_dates_not_Nil: "sample_dates now (Suc n) \<noteq> []"
  by (simp add: sample_dates_def)

lemma first_sample_transaction:
  "map amount (take 1 (fst (sample_transactions 0 (d # ds) g)))
     = [Some (of_int (fst (randint 500 2000 g)))]"
  by (simp add: Let_def split: prod.splits)

lemma first_sample_mood:
  "map snd (take 1 (fst (sample_moods (d # ds) g))) = [of_int (5 + fst (randint (- 2) 2 g))]"
  by (simp add: Let_def split: prod.splits)

text \<open>
  Claim C8, as stated, fails on the empty collection: \<open>get_recent_transactions\<close> and
  \<open>get_mood_history\<close> then return sample data made from the clock and from random
  draws, and two calls on the same stored state differ when the draws differ.
\<close>

theorem sample_history_counterexample:
  "fst (get_recent_transactions
          \<lparr>fp_student_id = ''s1'', fp_data_manager = DataManager_init ''data'',
           transactions = [], budget = []\<rparr> 10 example_now (fixed_draws 0, 0))
     \<noteq> fst (get_recent_transactions
          \<lparr>fp_student_id = ''s1'', fp_data_manager = DataManager_init ''data'',
           transactions = [], budget = []\<rparr> 10 example_now (fixed_draws 1, 0))
   \<and> fst (get_mood_history \<lparr>mw_student_id = ''s1'', mood_entries = []\<rparr>
            example_now (fixed_draws 0, 0))
     \<noteq> fst (get_mood_history \<lparr>mw_student_id = ''s1'', mood_entries = []\<rparr>
            example_now (fixed_draws 1, 0))"
proof -
  let ?now = "example_now"
  obtain d ds where ten: "sample_dates ?now 10 = d # ds"
    using sample_dates_not_Nil [of ?now 9] by (cases "sample_dates ?now 10") simp_all
  obtain e es where fourteen: "sample_dates ?now 14 = e # es"
    using sample_dates_not_Nil [of ?now 13] by (cases "sample_dates ?now 14") simp_all
  have "map amount (take 1 (fst (sample_transactions 0 (d # ds) (fixed_draws 0, 0))))
          \<noteq> map amount (take 1 (fst (sample_transactions 0 (d # ds) (fixed_draws 1, 0))))"
    unfolding first_sample_transaction by (simp add: randint_def fixed_draws_def)
  then have t: "fst (sample_transactions 0 (d # ds) (fixed_draws 0, 0))
                  \<noteq> fst (sample_transactions 0 (d # ds) (fixed_draws 1, 0))"
    by metis
  have "map snd (take 1 (fst (sample_moods (e # es) (fixed_draws 0, 0))))
          \<noteq> map snd (take 1 (fst (sample_moods (e # es) (fixed_draws 1, 0))))"
    unfolding first_sample_mood by (simp add: randint_def fixed_draws_def)
  then have m: "fst (sample_moods (e # es) (fixed_draws 0, 0)) \<noteq> fst (sample_moods (e # es) (fixed_draws 1, 0))"
    by metis
  show ?thesis
    using t m by (simp add: get_recent_transactions_def get_mood_history_def ten fourteen)
qed

text \<open>
  Claim C8, amended. On a non-empty stored collection \<open>get_recent_transactions\<close> and
  \<open>get_mood_history\<close> are functions of the stored entries (and of the limit): the
  result is the same whatever the clock and the random generator are, and the generator
  is left as it was.
\<close>

theorem stored_history_deterministic:
  assumes "transactions self \<noteq> []" and "mood_entries coach \<noteq> []"
  shows "get_recent_transactions self limit now g
           = (fst (get_recent_transactions self limit now' g'), g)
         \<and> get_mood_history coach now g = (fst (get_mood_history coach now' g'), g)"
  using assms by (simp add: get_recent_transactions_def get_mood_history_def Let_def)

theorem stored_history_deterministic_witness:
  "transactions
     \<lparr>fp_student_id = ''s1'', fp_data_manager = DataManager_init ''data'',
      transactions =
        [\<lparr>amount = Some (- 800), txn_description = Some ''Weekly food expenses'',
           category = Some ''Food'', date = Some ''2025-04-05'',
           txn_type = Some ''expense'', transaction_id = None, created_at = None\<rparr>],
      budget = []\<rparr> \<noteq> []
   \<and> mood_entries
       \<lparr>mw_student_id = ''s1'',
        mood_entries = [\<lparr>mood_date = Some ''2025-04-05'', score = Some 6,
                         stress_factors = None, sleep_hours = None\<rparr>]\<rparr> \<noteq> []
   \<and> get_recent_transactions
       \<lparr>fp_student_id = ''s1'', fp_data_manager = DataManager_init ''data'',
        transactions =
          [\<lparr>amount = Some (- 800), txn_description = Some ''Weekly food expenses'',
             category = Some ''Food'', date = Some ''2025-04-05'',
             txn_type = Some ''expense'', transaction_id = None, created_at = None\<rparr>],
        budget = []\<rparr> 10 example_now (fixed_draws 0, 0)
     = (fst (get_recent_transactions
          \<lparr>fp_student_id = ''s1'', fp_data_manager = DataManager_init ''data'',
           transactions =
             [\<lparr>amount = Some (- 800), txn_description = Some ''Weekly food expenses'',
                category = Some ''Food'', date = Some ''2025-04-05'',
                txn_type = Some ''expense'', transaction_id = None, created_at = None\<rparr>],
           budget = []\<rparr> 10 (example_now + timedelta_days 1) (fixed_draws 1, 7)), (fixed_draws 0, 0))
   \<and> get_mood_history
       \<lparr>mw_student_id = ''s1'',
        mood_entries = [\<lparr>mood_date = Some ''2025-04-05'', score = Some 6,
                         stress_factors = None, sleep_hours = None\<rparr>]\<rparr>
       example_now (fixed_draws 0, 0)
     = (fst (get_mood_history
          \<lparr>mw_student_id = ''s1'',
           mood_entries = [\<lparr>mood_date = Some ''2025-04-05'', score = Some 6,
                            stress_factors = None, sleep_hours = None\<rparr>]\<rparr>
          (example_now + timedelta_days 1) (fixed_draws 1, 7)), (fixed_draws 0, 0))"
proof -
  let ?p = "\<lparr>fp_student_id = ''s1'', fp_data_manager = DataManager_init ''data'',
      transactions =
        [\<lparr>amount = Some (- 800), txn_description = Some ''Weekly food expenses'',
           category = Some ''Food'', date = Some ''2025-04-05'',
           txn_type = Some ''expense'', transaction_id = None, created_at = None\<rparr>],
      budget = []\<rparr>"
  let ?c = "\<lparr>mw_student_id = ''s1'',
        mood_entries = [\<lparr>mood_date = Some ''2025-04-05'', score = Some 6,
                         stress_factors = None, sleep_hours = None\<rparr>]\<rparr>"
  have h1: "transactions ?p \<noteq> []" and h2: "mood_entries ?c \<noteq> []" by simp_all
  from stored_history_deterministic [OF h1 h2, of 10 example_now "(fixed_draws 0, 0)"
      "example_now + timedelta_days 1" "(fixed_draws 1, 7)"] h1 h2
  show ?thesis by blast
qed

section \<open>Properties of the prediction engine\<close>

text \<open>
  A stable sort by descending key is determined by three properties of its result: the
  same elements, keys in descending order, and for every key the original order of the
  elements that have it.
\<close>

lemma py_sorted_reverse_unique:
  assumes "mset ys = mset xs"
    and "sorted (map key (rev ys))"
    and "\<And>k. filter (\<lambda>x. k = key x) ys = filter (\<lambda>x. k = key x) xs"
  shows "py_sorted key True xs = ys"
proof -
  have "sort_key key (rev xs) = rev ys"
  proof (rule properties_for_sort_key)
    show "mset (rev ys) = mset (rev xs)" using assms(1) by simp
    show "sorted (map key (rev ys))" by (rule assms(2))
    show "filter (\<lambda>x. key k = key x) (rev ys) = filter (\<lambda>x. key k = key x) (rev xs)" for k
      using assms(3) [of "key k"] by (simp add: rev_filter [symmetric])
  qed
  then show ?thesis by (simp add: py_sorted_def)
qed

lemma priority_rank_simps:
  "priority r = ''high'' \<Longrightarrow> priority_rank r = 3"
  "priority r = ''medium'' \<Longrightarrow> priority_rank r = 2"
  "priority r = ''low'' \<Longrightarrow> priority_rank r = 1"
  by (simp_all add: priority_rank_def priority_order_def get_or_def)

lemma sorted_map_const: "\<forall>x \<in> set xs. f x = c \<Longrightarrow> sorted (map f xs)"
  by (induction xs) auto

lemma filter_rank_of_priority:
  assumes "\<And>r. priority r = p \<Longrightarrow> priority_rank r = n"
  shows "filter (\<lambda>x. k = priority_rank x) (filter (\<lambda>r. priority r = p) xs)
           = (if k = n then filter (\<lambda>r. priority r = p) xs else [])"
proof (cases "k = n")
  case True
  have "filter (\<lambda>x. priority x = p \<and> n = priority_rank x) xs = filter (\<lambda>r. priority r = p) xs"
    by (rule filter_cong) (use assms in auto)
  with True show ?thesis by simp
next
  case False
  then show ?thesis using assms by (auto simp: filter_empty_conv)
qed

lemma filter_rank_known:
  assumes "\<forall>r \<in> set xs. known_priority r"
  shows "filter (\<lambda>x. k = priority_rank x) xs
           = (if k = 3 then filter (\<lambda>r. priority r = ''high'') xs
              else if k = 2 then filter (\<lambda>r. priority r = ''medium'') xs
              else if k = 1 then filter (\<lambda>r. priority r = ''low'') xs
              else [])"
proof -
  have rank: "priority_rank r = (if priority r = ''high'' then 3
                 else if priority r = ''medium'' then 2 else 1)" if "r \<in> set xs" for r
    using assms that by (auto simp: known_priority_def priority_rank_simps)
  have known: "\<forall>r \<in> set xs. priority r = ''high'' \<or> priority r = ''medium'' \<or> priority r = ''low''"
    using assms by (simp add: known_priority_def)
  consider "k = 3" | "k = 2" | "k = 1" | "k \<noteq> 3" "k \<noteq> 2" "k \<noteq> 1" by blast
  then show ?thesis
  proof cases
    case 1
    then show ?thesis using rank by (auto intro!: filter_cong split: if_splits)
  next
    case 2
    then show ?thesis using rank known by (auto intro!: filter_cong split: if_splits)
  next
    case 3
    then show ?thesis using rank known by (auto intro!: filter_cong split: if_splits)
  next
    case 4
    then show ?thesis using rank by (auto simp: filter_empty_conv)
  qed
qed

lemma mset_three_priorities:
  assumes "\<forall>r \<in> set xs. known_priority r"
  shows "mset (filter (\<lambda>r. priority r = ''high'') xs
               @ filter (\<lambda>r. priority r = ''medium'') xs
               @ filter (\<lambda>r. priority r = ''low'') xs) = mset xs"
  using assms by (induction xs) (auto simp: known_priority_def)

lemma sorted_by_priority:
  assumes "\<forall>r \<in> set xs. known_priority r"
  shows "py_sorted priority_rank True xs
           = filter (\<lambda>r. priority r = ''high'') xs
             @ filter (\<lambda>r. priority r = ''medium'') xs
             @ filter (\<lambda>r. priority r = ''low'') xs"
    (is "_ = ?h @ ?m @ ?l")
proof (rule py_sorted_reverse_unique)
  show "mset (?h @ ?m @ ?l) = mset xs"
    by (rule mset_three_priorities [OF assms])
  have h: "\<forall>r \<in> set (rev ?h). priority_rank r = 3" by (simp add: priority_rank_simps)
  have m: "\<forall>r \<in> set (rev ?m). priority_rank r = 2" by (simp add: priority_rank_simps)
  have l: "\<forall>r \<in> set (rev ?l). priority_rank r = 1" by (simp add: priority_rank_simps)
  show "sorted (map priority_rank (rev (?h @ ?m @ ?l)))"
    unfolding rev_append map_append sorted_append
    using h m l sorted_map_const [OF h] sorted_map_const [OF m] sorted_map_const [OF l]
    by auto
  show "filter (\<lambda>x. k = priority_rank x) (?h @ ?m @ ?l) = filter (\<lambda>x. k = priority_rank x) xs" for k
  proof -
    have H: "filter (\<lambda>x. k = priority_rank x) ?h = (if k = 3 then ?h else [])"
      by (rule filter_rank_of_priority) (simp add: priority_rank_simps)
    have M: "filter (\<lambda>x. k = priority_rank x) ?m = (if k = 2 then ?m else [])"
      by (rule filter_rank_of_priority) (simp add: priority_rank_simps)
    have L: "filter (\<lambda>x. k = priority_rank x) ?l = (if k = 1 then ?l else [])"
      by (rule filter_rank_of_priority) (simp add: priority_rank_simps)
    show ?thesis
      unfolding filter_append H M L filter_rank_known [OF assms] by simp
  qed
qed

lemma deadline_known:
  "deadline_recommendations now tasks = Inr rs \<Longrightarrow> \<forall>r \<in> set rs. known_priority r"
  by (auto simp: deadline_recommendations_def single_deadline_def known_priority_def
        split: sum.splits list.splits if_splits)

lemma cgpa_known: "\<forall>r \<in> set (cgpa_recommendations perf). known_priority r"
  by (simp add: cgpa_recommendations_def Let_def known_priority_def)

lemma study_known:
  "study_recommendations now study_data = Inr rs \<Longrightarrow> \<forall>r \<in> set rs. known_priority r"
  by (auto simp: study_recommendations_def known_priority_def split: sum.splits if_splits)

lemma academic_known:
  assumes "generate_academic_recommendations files now = Inr rs"
  shows "\<forall>r \<in> set rs. known_priority r"
  using assms deadline_known study_known cgpa_known
  by (fastforce simp: generate_academic_recommendations_def Let_def split: sum.splits)

lemma budget_known:
  "budget_recommendations now budget_items txns = Inr rs \<Longrightarrow> \<forall>r \<in> set rs. known_priority r"
  by (auto simp: budget_recommendations_def known_priority_def Let_def
        split: sum.splits if_splits)

lemma financial_known:
  assumes "generate_financial_recommendations files now = Inr rs"
  shows "\<forall>r \<in> set rs. known_priority r"
proof -
  from assms obtain r1 where r1: "budget_recommendations now (or_empty (financial_budget files))
        (or_empty (financial_transactions files)) = Inr r1"
    by (auto simp: generate_financial_recommendations_def Let_def split: sum.splits)
  from assms r1 have "set rs \<subseteq> set r1 \<union> {r. known_priority r}"
    by (auto simp: generate_financial_recommendations_def Let_def known_priority_def
          split: if_splits)
  with budget_known [OF r1] show ?thesis by auto
qed

lemma stress_known: "\<forall>r \<in> set (stress_recommendations recent). known_priority r"
  by (auto simp: stress_recommendations_def Let_def known_priority_def
        split: sum.splits if_splits)

lemma mood_known:
  assumes "mood_recommendations now mood_data = Inr rs"
  shows "\<forall>r \<in> set rs. known_priority r"
proof -
  have "set rs \<subseteq> {r. known_priority r}
          \<union> (\<Union>recent. set (stress_recommendations recent))"
    using assms
    by (auto simp: mood_recommendations_def known_priority_def split: sum.splits if_splits)
  with stress_known show ?thesis by blast
qed

lemma sleep_known:
  "sleep_recommendations now sleep_data = Inr rs \<Longrightarrow> \<forall>r \<in> set rs. known_priority r"
  by (auto simp: sleep_recommendations_def known_priority_def split: sum.splits if_splits)

lemma wellness_known:
  assumes "generate_wellness_recommendations files now = Inr rs"
  shows "\<forall>r \<in> set rs. known_priority r"
  using assms mood_known sleep_known
  by (fastforce simp: generate_wellness_recommendations_def Let_def split: sum.splits)

lemma experience_known:
  "experience_recommendations profile = Inr rs \<Longrightarrow> \<forall>r \<in> set rs. known_priority r"
  by (auto simp: experience_recommendations_def known_priority_def Let_def
        split: option.splits if_splits)

lemma career_known:
  assumes "generate_career_recommendations self files = Inr rs"
  shows "\<forall>r \<in> set rs. known_priority r"
proof -
  have "set rs \<subseteq> {r. known_priority r}
          \<union> (\<Union>r3 \<in> {r3. experience_recommendations (student_profile self) = Inr r3}. set r3)"
    using assms
    by (auto simp: generate_career_recommendations_def Let_def known_priority_def
          split: sum.splits if_splits)
  with experience_known show ?thesis by blast
qed

lemmas engine_defs =
  get_personalized_recommendations_def cache_is_recent_def
  generate_academic_recommendations_def deadline_recommendations_def is_upcoming_def
  single_deadline_def cgpa_recommendations_def study_recommendations_def is_recent_def
  generate_financial_recommendations_def budget_recommendations_def
  over_budget_categories_def generate_wellness_recommendations_def mood_recommendations_def
  stress_recommendations_def sleep_recommendations_def generate_career_recommendations_def
  experience_recommendations_def or_empty_def get_or_def subscript_def fromisoformat_def
  nonempty_text_def timedelta_days_def timedelta_hours_def days_def py_truediv_def
  py_sorted_def py_max_def lower_def lower_char_def priority_rank_def priority_order_def Let_def

lemmas example_defs =
  example_now_def example_engine_def example_task_def example_files_def
  example_deadlines_def example_cgpa_def example_scholarship_def example_mood_def
  example_experience_def example_files_untyped_task_def

text \<open>
  Claim C6. When the four generators return, \<open>get_personalized_recommendations\<close>
  returns their recommendations sorted by priority rank (high 3, medium 2, low 1) in
  descending order, and the sort is stable: the result is every high entry, then every
  medium entry, then every low entry, each group in the order of generation, academic
  before financial before wellness before career. The same list is stored in the cache.
  (Within an hour of a call that stored a list, the stored list is returned as it is.)
\<close>

theorem recommendations_sorted_by_priority:
  assumes "\<not> cache_is_recent self now"
    and "generate_academic_recommendations files now = Inr academic_recs"
    and "generate_financial_recommendations files now = Inr financial_recs"
    and "generate_wellness_recommendations files now = Inr wellness_recs"
    and "generate_career_recommendations self files = Inr career_recs"
  shows "let generated = academic_recs @ financial_recs @ wellness_recs @ career_recs;
             recs = filter (\<lambda>r. priority r = ''high'') generated
                    @ filter (\<lambda>r. priority r = ''medium'') generated
                    @ filter (\<lambda>r. priority r = ''low'') generated
         in get_personalized_recommendations self files now
              = Inr (self\<lparr>recommendations_cache := Some recs, last_update := Some now\<rparr>, recs)
            \<and> mset recs = mset generated
            \<and> sorted (rev (map priority_rank recs))"
proof -
  let ?g = "academic_recs @ financial_recs @ wellness_recs @ career_recs"
  have known: "\<forall>r \<in> set ?g. known_priority r"
    using academic_known [OF assms(2)] financial_known [OF assms(3)]
      wellness_known [OF assms(4)] career_known [OF assms(5)]
    by auto
  have sorted_eq: "py_sorted priority_rank True ?g
      = filter (\<lambda>r. priority r = ''high'') ?g @ filter (\<lambda>r. priority r = ''medium'') ?g
        @ filter (\<lambda>r. priority r = ''low'') ?g"
    by (rule sorted_by_priority [OF known])
  have "sorted (map priority_rank (rev (py_sorted priority_rank True ?g)))"
    by (simp add: py_sorted_def)
  then have desc: "sorted (rev (map priority_rank (py_sorted priority_rank True ?g)))"
    by (simp add: rev_map)
  have result: "get_personalized_recommendations self files now
      = Inr (self\<lparr>recommendations_cache := Some (py_sorted priority_rank True ?g),
                   last_update := Some now\<rparr>, py_sorted priority_rank True ?g)"
    using assms by (simp add: get_personalized_recommendations_def Let_def)
  show ?thesis
    unfolding Let_def
    using result desc mset_three_priorities [OF known] unfolding sorted_eq by simp
qed

theorem recommendations_sorted_by_priority_witness:
  "\<not> cache_is_recent example_engine example_now
   \<and> generate_academic_recommendations example_files example_now
       = Inr [example_deadlines, example_cgpa]
   \<and> generate_financial_recommendations example_files example_now = Inr [example_scholarship]
   \<and> generate_wellness_recommendations example_files example_now = Inr [example_mood]
   \<and> generate_career_recommendations example_engine example_files = Inr [example_experience]
   \<and> get_personalized_recommendations example_engine example_files example_now
       = Inr (example_engine
                \<lparr>recommendations_cache :=
                   Some [example_deadlines, example_cgpa, example_experience,
                         example_scholarship, example_mood],
                 last_update := Some example_now\<rparr>,
              [example_deadlines, example_cgpa, example_experience,
               example_scholarship, example_mood])"
proof -
  have h1: "\<not> cache_is_recent example_engine example_now"
    by (simp add: example_defs engine_defs)
  have h2: "generate_academic_recommendations example_files example_now
              = Inr [example_deadlines, example_cgpa]"
    by (simp add: example_defs engine_defs)
  have h3: "generate_financial_recommendations example_files example_now
              = Inr [example_scholarship]"
    by (simp add: example_defs engine_defs)
  have h4: "generate_wellness_recommendations example_files example_now = Inr [example_mood]"
    by (simp add: example_defs engine_defs)
  have h5: "generate_career_recommendations example_engine example_files
              = Inr [example_experience]"
    by (simp add: example_defs engine_defs)
  have p: "priority example_deadlines = ''high''" "priority example_cgpa = ''high''"
    "priority example_scholarship = ''medium''" "priority example_mood = ''low''"
    "priority example_experience = ''high''"
    by (simp_all add: example_defs)
  from recommendations_sorted_by_priority [OF h1 h2 h3 h4 h5] h1 h2 h3 h4 h5
  show ?thesis
    by (simp add: Let_def p)
qed

text \<open>
  Claim C5, as stated, fails: nothing in \<open>get_personalized_recommendations\<close> catches
  an exception of a generator. For a student whose profile could not be loaded and who
  has no files, the academic, financial and wellness generators return their lists, the
  career generator raises AttributeError at \<open>self.student_profile.get\<close>, and the
  call raises it too instead of returning the other lists.
\<close>

theorem failing_generator_counterexample:
  "\<not> cache_is_recent
       \<lparr>pe_student_id = ''s1'', student_profile = None, recommendations_cache = None,
        last_update = None\<rparr> 63879874215000250
   \<and> generate_academic_recommendations
       \<lparr>academic_tasks = None, academic_performance = None, academic_study_hours = None,
        financial_transactions = None, financial_budget = None,
        financial_financial_aid = None, financial_goals = None, wellness_mood = None,
        wellness_sleep = None, career_career_data = None, career_skills = None,
        career_experiences = None\<rparr> 63879874215000250 = Inr []
   \<and> \<not> isl (generate_financial_recommendations
       \<lparr>academic_tasks = None, academic_performance = None, academic_study_hours = None,
        financial_transactions = None, financial_budget = None,
        financial_financial_aid = None, financial_goals = None, wellness_mood = None,
        wellness_sleep = None, career_career_data = None, career_skills = None,
        career_experiences = None\<rparr> 63879874215000250)
   \<and> \<not> isl (generate_wellness_recommendations
       \<lparr>academic_tasks = None, academic_performance = None, academic_study_hours = None,
        financial_transactions = None, financial_budget = None,
        financial_financial_aid = None, financial_goals = None, wellness_mood = None,
        wellness_sleep = None, career_career_data = None, career_skills = None,
        career_experiences = None\<rparr> 63879874215000250)
   \<and> generate_career_recommendations
       \<lparr>pe_student_id = ''s1'', student_profile = None, recommendations_cache = None,
        last_update = None\<rparr>
       \<lparr>academic_tasks = None, academic_performance = None, academic_study_hours = None,
        financial_transactions = None, financial_budget = None,
        financial_financial_aid = None, financial_goals = None, wellness_mood = None,
        wellness_sleep = None, career_career_data = None, career_skills = None,
        career_experiences = None\<rparr> = Inl AttributeError
   \<and> get_personalized_recommendations
       \<lparr>pe_student_id = ''s1'', student_profile = None, recommendations_cache = None,
        last_update = None\<rparr>
       \<lparr>academic_tasks = None, academic_performance = None, academic_study_hours = None,
        financial_transactions = None, financial_budget = None,
        financial_financial_aid = None, financial_goals = None, wellness_mood = None,
        wellness_sleep = None, career_career_data = None, career_skills = None,
        career_experiences = None\<rparr> 63879874215000250 = Inl AttributeError"
  by (simp add: engine_defs)

lemmas failing_defs =
  example_engine_no_profile_def example_files_all_failing_def
  example_files_failing_from_financial_def example_files_failing_from_wellness_def
  example_files_failing_in_career_def

text \<open>
  Claim C5, amended. When the cache is not used and a generator raises,
  \<open>get_personalized_recommendations\<close> returns no list: it raises the exception of the
  first generator to fail, in the order academic, financial, wellness, career, whatever
  the generators after it would have done.
\<close>

theorem failing_generator_aborts:
  assumes "\<not> cache_is_recent self now"
  shows "(generate_academic_recommendations files now = Inl e
            \<longrightarrow> get_personalized_recommendations self files now = Inl e)
         \<and> (\<not> isl (generate_academic_recommendations files now)
              \<and> generate_financial_recommendations files now = Inl e
            \<longrightarrow> get_personalized_recommendations self files now = Inl e)
         \<and> (\<not> isl (generate_academic_recommendations files now)
              \<and> \<not> isl (generate_financial_recommendations files now)
              \<and> generate_wellness_recommendations files now = Inl e
            \<longrightarrow> get_personalized_recommendations self files now = Inl e)
         \<and> (\<not> isl (generate_academic_recommendations files now)
              \<and> \<not> isl (generate_financial_recommendations files now)
              \<and> \<not> isl (generate_wellness_recommendations files now)
              \<and> generate_career_recommendations self files = Inl e
            \<longrightarrow> get_personalized_recommendations self files now = Inl e)"
  using assms
  by (auto simp: get_personalized_recommendations_def split: sum.splits)

theorem failing_generator_aborts_witness:
  "\<not> cache_is_recent example_engine_no_profile example_now
   \<and> generate_academic_recommendations example_files_all_failing example_now = Inl KeyError
   \<and> generate_financial_recommendations example_files_all_failing example_now = Inl TypeError
   \<and> generate_wellness_recommendations example_files_all_failing example_now = Inl ValueError
   \<and> generate_career_recommendations example_engine_no_profile example_files_all_failing
       = Inl AttributeError
   \<and> get_personalized_recommendations example_engine_no_profile example_files_all_failing
       example_now = Inl KeyError
   \<and> \<not> isl (generate_academic_recommendations example_files_failing_from_financial example_now)
   \<and> generate_financial_recommendations example_files_failing_from_financial example_now
       = Inl TypeError
   \<and> get_personalized_recommendations example_engine_no_profile
       example_files_failing_from_financial example_now = Inl TypeError
   \<and> \<not> isl (generate_academic_recommendations example_files_failing_from_wellness example_now)
   \<and> \<not> isl (generate_financial_recommendations example_files_failing_from_wellness example_now)
   \<and> generate_wellness_recommendations example_files_failing_from_wellness example_now
       = Inl ValueError
   \<and> get_personalized_recommendations example_engine_no_profile
       example_files_failing_from_wellness example_now = Inl ValueError
   \<and> \<not> isl (generate_academic_recommendations example_files_failing_in_career example_now)
   \<and> \<not> isl (generate_financial_recommendations example_files_failing_in_career example_now)
   \<and> \<not> isl (generate_wellness_recommendations example_files_failing_in_career example_now)
   \<and> generate_career_recommendations example_engine_no_profile example_files_failing_in_career
       = Inl AttributeError
   \<and> get_personalized_recommendations example_engine_no_profile
       example_files_failing_in_career example_now = Inl AttributeError"
proof -
  have h: "\<not> cache_is_recent example_engine_no_profile example_now"
    by (simp add: failing_defs example_defs engine_defs)
  have a1: "generate_academic_recommendations example_files_all_failing example_now = Inl KeyError"
    by (simp add: failing_defs example_defs engine_defs)
  have f1: "generate_financial_recommendations example_files_all_failing example_now = Inl TypeError"
    by (simp add: failing_defs example_defs engine_defs)
  have w1: "generate_wellness_recommendations example_files_all_failing example_now = Inl ValueError"
    by (simp add: failing_defs example_defs engine_defs)
  have c1: "generate_career_recommendations example_engine_no_profile example_files_all_failing
              = Inl AttributeError"
    by (simp add: failing_defs example_defs engine_defs)
  have a2: "\<not> isl (generate_academic_recommendations example_files_failing_from_financial example_now)"
    by (simp add: failing_defs example_defs engine_defs)
  have f2: "generate_financial_recommendations example_files_failing_from_financial example_now
              = Inl TypeError"
    by (simp add: failing_defs example_defs engine_defs)
  have a3: "\<not> isl (generate_academic_recommendations example_files_failing_from_wellness example_now)"
    by (simp add: failing_defs example_defs engine_defs)
  have f3: "\<not> isl (generate_financial_recommendations example_files_failing_from_wellness example_now)"
    by (simp add: failing_defs example_defs engine_defs)
  have w3: "generate_wellness_recommendations example_files_failing_from_wellness example_now
              = Inl ValueError"
    by (simp add: failing_defs example_defs engine_defs)
  have a4: "\<not> isl (generate_academic_recommendations example_files_failing_in_career example_now)"
    by (simp add: failing_defs example_defs engine_defs)
  have f4: "\<not> isl (generate_financial_recommendations example_files_failing_in_career example_now)"
    by (simp add: failing_defs example_defs engine_defs)
  have w4: "\<not> isl (generate_wellness_recommendations example_files_failing_in_career example_now)"
    by (simp add: failing_defs example_defs engine_defs)
  have c4: "generate_career_recommendations example_engine_no_profile
              example_files_failing_in_career = Inl AttributeError"
    by (simp add: failing_defs example_defs engine_defs)
  have r1: "get_personalized_recommendations example_engine_no_profile example_files_all_failing
              example_now = Inl KeyError"
    using failing_generator_aborts [OF h, where files = example_files_all_failing
        and e = KeyError] a1 by blast
  have r2: "get_personalized_recommendations example_engine_no_profile
              example_files_failing_from_financial example_now = Inl TypeError"
    using failing_generator_aborts [OF h, where files = example_files_failing_from_financial
        and e = TypeError] a2 f2 by blast
  have r3: "get_personalized_recommendations example_engine_no_profile
              example_files_failing_from_wellness example_now = Inl ValueError"
    using failing_generator_aborts [OF h, where files = example_files_failing_from_wellness
        and e = ValueError] a3 f3 w3 by blast
  have r4: "get_personalized_recommendations example_engine_no_profile
              example_files_failing_in_career example_now = Inl AttributeError"
    using failing_generator_aborts [OF h, where files = example_files_failing_in_career
        and e = AttributeError] a4 f4 w4 c4 by blast
  show ?thesis
    using h a1 f1 w1 c1 r1 a2 f2 r2 a3 f3 w3 r3 a4 f4 w4 c4 r4 by blast
qed

section \<open>Properties of the content getters and of the content cache\<close>

lemma request_content_failed:
  assumes "net (length made) = ConnectionFailed
           \<or> (\<exists>code body. net (length made) = HttpResponse code body \<and> (code \<noteq> 200 \<or> body = None))
           \<or> (\<exists>v. net (length made) = HttpResponse 200 (Some v)
                  \<and> (\<not> truthy v \<or> isl (response_content v)))
           \<or> (\<exists>v content. net (length made) = HttpResponse 200 (Some v) \<and> truthy v
                  \<and> response_content v = Inr content \<and> isl (parse_content loads content))"
  shows "fst (request_content loads self net made kind) = None"
  using assms
  by (auto simp: request_content_def make_groq_request_def Let_def
        split: http_outcome.splits option.splits sum.splits prod.splits)






text \<open>
  An initialised agent makes exactly one request in a getter, whatever comes back.
\<close>

lemma request_content_made:
  "initialized self \<Longrightarrow> snd (request_content loads self net made kind) = made @ [kind]"
  by (auto simp: request_content_def make_groq_request_def Let_def
        split: http_outcome.splits option.splits sum.splits prod.splits)

lemma get_academic_trends_made:
  "initialized self \<Longrightarrow> snd (get_academic_trends loads self net made deg year) = made @ [AcademicTrends]"
  using request_content_made [of self loads net made AcademicTrends]
  by (auto simp: get_academic_trends_def split: prod.splits option.splits)

lemma get_financial_advice_made:
  "initialized self \<Longrightarrow>
     snd (get_financial_advice loads self net made profile financial_data)
       = made @ (if financial_summary_raises financial_data then [] else [FinancialTips])"
  using request_content_made [of self loads net made FinancialTips]
  by (auto simp: get_financial_advice_def split: prod.splits option.splits)

lemma get_wellness_tips_made:
  "initialized self \<Longrightarrow> snd (get_wellness_tips loads self net made profile) = made @ [WellnessTips]"
  using request_content_made [of self loads net made WellnessTips]
  by (auto simp: get_wellness_tips_def split: prod.splits option.splits)

lemma get_career_insights_made:
  "initialized self \<Longrightarrow> snd (get_career_insights loads self net made profile) = made @ [CareerInsights]"
  using request_content_made [of self loads net made CareerInsights]
  by (auto simp: get_career_insights_def split: prod.splits option.splits)

lemma slice_news_tables:
  "slice_json 3 news_education = Inr news_education"
  "slice_json 3 news_finance = Inr news_finance"
  "slice_json 3 news_wellness = Inr news_wellness"
  "slice_json 3 news_career = Inr news_career"
  "slice_json 3 news_resources = Inr news_resources"
  by (simp_all add: news_education_def news_finance_def news_wellness_def news_career_def
        news_resources_def)

lemma news_data_lists: "map_of news_data topic = Some items \<Longrightarrow> \<exists>xs. items = JArr xs"
  by (auto simp: news_data_def news_education_def news_finance_def news_wellness_def
        news_career_def news_resources_def split: if_splits)

lemma fetch_trending_news_returns:
  assumes "sliceable (news_items c) topic"
  shows "\<exists>v. fetch_trending_news c topic = Inr v"
proof -
  have static: "\<exists>v. slice_json 3 (case map_of news_data topic of None \<Rightarrow> JArr [] | Some items \<Rightarrow> items) = Inr v"
    using news_data_lists [of topic] by (cases "map_of news_data topic") auto
  show ?thesis
    using assms static
    by (auto simp: fetch_trending_news_def sliceable_def split: option.splits)
qed

lemma get_latest_news_returns:
  assumes "initialized self" and "sliceable (news_items c) topic"
  shows "\<exists>v. get_latest_news loads self net made c topic = (Inr v, made @ [News topic])"
  using assms request_content_made [of self loads net made "News topic"]
    fetch_trending_news_returns [of c topic]
  by (auto simp: get_latest_news_def split: prod.splits option.splits)

lemma map_of_set_item:
  "map_of (set_item d k v) k' = (if k' = k then Some v else map_of d k')"
  by (induction d k v rule: set_item.induct) auto

lemma sliceable_set_item:
  "topic \<noteq> t \<Longrightarrow> sliceable (set_item d (t @ ''_news'') v) topic = sliceable d topic"
  by (simp add: sliceable_def map_of_set_item)

lemma update_news_completes:
  assumes "initialized agent" and "distinct topics"
    and "\<forall>t \<in> set topics. sliceable (news_items c) t"
  shows "\<exists>c'. update_news loads agent net topics (c, made) = (None, c', made @ map News topics)
           \<and> academic_trends c' = academic_trends c \<and> financial_tips c' = financial_tips c
           \<and> wellness_tips c' = wellness_tips c \<and> career_insights c' = career_insights c
           \<and> last_updated c' = last_updated c"
  using assms(2,3)
proof (induction topics arbitrary: c made)
  case Nil
  then show ?case by simp
next
  case (Cons t ts)
  from Cons.prems obtain v where v: "get_latest_news loads agent net made c t = (Inr v, made @ [News t])"
    using get_latest_news_returns [OF assms(1), of c t loads net made] by auto
  let ?c = "c\<lparr>news_items := set_item (news_items c) (t @ ''_news'') v\<rparr>"
  have "sliceable (news_items ?c) t'" if "t' \<in> set ts" for t'
  proof -
    from that Cons.prems have "t' \<noteq> t" by auto
    then show ?thesis using that Cons.prems by (simp add: sliceable_set_item)
  qed
  then have "\<forall>t' \<in> set ts. sliceable (news_items ?c) t'" by blast
  moreover have "distinct ts" using Cons.prems by simp
  ultimately obtain c' where
    "update_news loads agent net ts (?c, made @ [News t]) = (None, c', (made @ [News t]) @ map News ts)"
    "academic_trends c' = academic_trends ?c" "financial_tips c' = financial_tips ?c"
    "wellness_tips c' = wellness_tips ?c" "career_insights c' = career_insights ?c"
    "last_updated c' = last_updated ?c"
    using Cons.IH [of ?c "made @ [News t]"] by blast
  then show ?case using v by simp
qed

lemma update_content_cache_skips:
  assumes "\<not> force" and "last_updated (cached st) = Some updated" and "days (now - updated) < 1"
  shows "update_content_cache loads net force now (st, made) = (st, made)"
  using assms by (simp add: update_content_cache_def)

lemma update_content_cache_refreshes:
  assumes att: "force \<or> last_updated (cached st) = None
                \<or> (\<exists>u. last_updated (cached st) = Some u \<and> 1 \<le> days (now - u))"
    and init: "initialized (ai_agent st)"
    and prof: "ss_student_profile st = Some profile"
    and news: "\<forall>v \<in> snd ` set (news_items (cached st)). \<exists>xs. v = JArr xs"
  shows "\<exists>st'. update_content_cache loads net force now (st, made)
             = (st', made @ [AcademicTrends]
                     @ (if financial_summary_raises
                            (case financial_planner st of None \<Rightarrow> None
                             | Some planner \<Rightarrow> Some (get_all_transactions planner))
                        then [] else [FinancialTips])
                     @ [WellnessTips, CareerInsights, News ''education'', News ''finance'',
                        News ''wellness'', News ''career''])
           \<and> last_updated (cached st') = Some now
           \<and> academic_trends (cached st')
               = fst (get_academic_trends loads (ai_agent st) net made
                        (Some (get_degree profile)) (Some (get_year_of_study profile)))"
proof -
  let ?agent = "ai_agent st"
  let ?pd = "\<lparr>ctx_degree = Some (get_degree profile),
              ctx_year_of_study = Some (get_year_of_study profile),
              ctx_college = Some (get_college_name profile)\<rparr>"
  let ?fd = "case financial_planner st of None \<Rightarrow> None
             | Some planner \<Rightarrow> Some (get_all_transactions planner)"
  let ?topics = "[''education'', ''finance'', ''wellness'', ''career'']"
  obtain trends made1 where g1: "get_academic_trends loads ?agent net made
      (Some (get_degree profile)) (Some (get_year_of_study profile)) = (trends, made1)"
    by (cases "get_academic_trends loads ?agent net made
      (Some (get_degree profile)) (Some (get_year_of_study profile))") auto
  then have m1: "made1 = made @ [AcademicTrends]"
    using get_academic_trends_made [OF init, of loads net made] by (metis snd_conv)
  obtain advice made2 where g2: "get_financial_advice loads ?agent net made1 ?pd ?fd = (advice, made2)"
    by (cases "get_financial_advice loads ?agent net made1 ?pd ?fd") auto
  then have m2: "made2 = made1 @ (if financial_summary_raises ?fd then [] else [FinancialTips])"
    using get_financial_advice_made [OF init, of loads net made1 ?pd ?fd] by (metis snd_conv)
  obtain tips made3 where g3: "get_wellness_tips loads ?agent net made2 ?pd = (tips, made3)"
    by (cases "get_wellness_tips loads ?agent net made2 ?pd") auto
  then have m3: "made3 = made2 @ [WellnessTips]"
    using get_wellness_tips_made [OF init, of loads net made2 ?pd] by (metis snd_conv)
  obtain insights made4 where g4: "get_career_insights loads ?agent net made3 ?pd = (insights, made4)"
    by (cases "get_career_insights loads ?agent net made3 ?pd") auto
  then have m4: "made4 = made3 @ [CareerInsights]"
    using get_career_insights_made [OF init, of loads net made3 ?pd] by (metis snd_conv)
  let ?c4 = "(cached st)\<lparr>academic_trends := trends, financial_tips := advice,
               wellness_tips := tips, career_insights := insights\<rparr>"
  have "\<forall>t \<in> set ?topics. sliceable (news_items ?c4) t"
    using news by (auto simp: sliceable_def split: option.splits dest!: map_of_SomeD)
  moreover have "distinct ?topics" by simp
  ultimately obtain c5 where
    un: "update_news loads ?agent net ?topics (?c4, made4) = (None, c5, made4 @ map News ?topics)"
    and c5: "academic_trends c5 = academic_trends ?c4" "last_updated c5 = last_updated ?c4"
    using update_news_completes [OF init, of ?topics ?c4 loads net made4] by blast
  have attempt: "\<not> (\<not> force \<and> (case last_updated (cached st) of None \<Rightarrow> False
                          | Some updated \<Rightarrow> days (now - updated) < 1))"
    using att by (auto split: option.splits)
  have "update_content_cache loads net force now (st, made)
          = (st\<lparr>cached := c5\<lparr>last_updated := Some now\<rparr>\<rparr>, made4 @ map News ?topics)"
    unfolding update_content_cache_def
    by (simp add: attempt init prof g1 g2 g3 g4 un Let_def del: update_news.simps)
  then show ?thesis
    using m1 m2 m3 m4 c5 g1 by simp
qed

text \<open>
  When every request fails, each getter returns its fallback and the news loop stores,
  for each topic, what \<open>fetch_trending_news\<close> makes of the cache as the refresh found
  it.
\<close>

lemma request_content_all_fail:
  assumes "\<forall>n. net n = ConnectionFailed
             \<or> (\<exists>code body. net n = HttpResponse code body \<and> (code \<noteq> 200 \<or> body = None))
             \<or> (\<exists>v. net n = HttpResponse 200 (Some v)
                    \<and> (\<not> truthy v \<or> isl (response_content v)))
             \<or> (\<exists>v content. net n = HttpResponse 200 (Some v) \<and> truthy v
                    \<and> response_content v = Inr content \<and> isl (parse_content loads content))"
    and "initialized self"
  shows "request_content loads self net made kind = (None, made @ [kind])"
proof -
  have "fst (request_content loads self net made kind) = None"
    by (rule request_content_failed) (use assms(1) in blast)
  moreover have "snd (request_content loads self net made kind) = made @ [kind]"
    using assms(2) by (rule request_content_made)
  ultimately show ?thesis by (simp add: prod_eq_iff)
qed

lemma fetch_trending_news_cong:
  "map_of (news_items c1) (t @ ''_news'') = map_of (news_items c) (t @ ''_news'')
     \<Longrightarrow> fetch_trending_news c1 t = fetch_trending_news c t"
  by (simp add: fetch_trending_news_def)

lemma update_news_all_fail:
  assumes init: "initialized agent"
    and fail: "\<And>made kind. request_content loads agent net made kind = (None, made @ [kind])"
  shows "distinct topics \<Longrightarrow> \<forall>t \<in> set topics. sliceable (news_items c) t \<Longrightarrow>
         \<exists>c'. update_news loads agent net topics (c, made) = (None, c', made @ map News topics)
           \<and> academic_trends c' = academic_trends c \<and> financial_tips c' = financial_tips c
           \<and> wellness_tips c' = wellness_tips c \<and> career_insights c' = career_insights c
           \<and> last_updated c' = last_updated c
           \<and> (\<forall>t \<in> set topics. \<exists>v. map_of (news_items c') (t @ ''_news'') = Some v
                  \<and> fetch_trending_news c t = Inr v)
           \<and> (\<forall>t. t \<notin> set topics
                  \<longrightarrow> map_of (news_items c') (t @ ''_news'') = map_of (news_items c) (t @ ''_news''))"
proof (induction topics arbitrary: c made)
  case Nil
  then show ?case by simp
next
  case (Cons t ts)
  from Cons.prems obtain v where v: "fetch_trending_news c t = Inr v"
    using fetch_trending_news_returns [of c t] by auto
  have g: "get_latest_news loads agent net made c t = (Inr v, made @ [News t])"
    using init v by (simp add: get_latest_news_def fail)
  let ?c = "c\<lparr>news_items := set_item (news_items c) (t @ ''_news'') v\<rparr>"
  have other: "map_of (news_items ?c) (t' @ ''_news'') = map_of (news_items c) (t' @ ''_news'')"
    if "t' \<noteq> t" for t'
    using that by (simp add: map_of_set_item)
  have "sliceable (news_items ?c) t'" if "t' \<in> set ts" for t'
  proof -
    from that Cons.prems have "t' \<noteq> t" by auto
    then show ?thesis using that Cons.prems by (simp add: sliceable_set_item)
  qed
  then have "\<forall>t' \<in> set ts. sliceable (news_items ?c) t'" by blast
  moreover have "distinct ts" using Cons.prems by simp
  ultimately obtain c' where
    un: "update_news loads agent net ts (?c, made @ [News t]) = (None, c', (made @ [News t]) @ map News ts)"
    and keep: "academic_trends c' = academic_trends ?c" "financial_tips c' = financial_tips ?c"
      "wellness_tips c' = wellness_tips ?c" "career_insights c' = career_insights ?c"
      "last_updated c' = last_updated ?c"
    and stored: "\<forall>t' \<in> set ts. \<exists>v'. map_of (news_items c') (t' @ ''_news'') = Some v'
                  \<and> fetch_trending_news ?c t' = Inr v'"
    and rest: "\<forall>t'. t' \<notin> set ts
                  \<longrightarrow> map_of (news_items c') (t' @ ''_news'') = map_of (news_items ?c) (t' @ ''_news'')"
    using Cons.IH [of ?c "made @ [News t]"] by blast
  have "t \<notin> set ts" using Cons.prems by simp
  with rest have here: "map_of (news_items c') (t @ ''_news'') = Some v"
    by (simp add: map_of_set_item)
  have there: "\<exists>v'. map_of (news_items c') (t' @ ''_news'') = Some v'
                  \<and> fetch_trending_news c t' = Inr v'" if "t' \<in> set ts" for t'
  proof -
    from that \<open>t \<notin> set ts\<close> have "t' \<noteq> t" by auto
    then have "fetch_trending_news ?c t' = fetch_trending_news c t'"
      by (intro fetch_trending_news_cong other)
    with stored that show ?thesis by auto
  qed
  have away: "map_of (news_items c') (t' @ ''_news'') = map_of (news_items c) (t' @ ''_news'')"
    if "t' \<notin> set (t # ts)" for t'
    using that rest other [of t'] by simp
  have "update_news loads agent net (t # ts) (c, made) = (None, c', made @ map News (t # ts))"
    using g un by simp
  moreover have "\<forall>t' \<in> set (t # ts). \<exists>v'. map_of (news_items c') (t' @ ''_news'') = Some v'
                  \<and> fetch_trending_news c t' = Inr v'"
    using here v there by auto
  ultimately show ?case using keep away by (simp del: update_news.simps)
qed

lemma update_content_cache_all_fail:
  assumes att: "force \<or> last_updated (cached st) = None
                \<or> (\<exists>u. last_updated (cached st) = Some u \<and> 1 \<le> days (now - u))"
    and init: "initialized (ai_agent st)"
    and prof: "ss_student_profile st = Some profile"
    and news: "\<forall>v \<in> snd ` set (news_items (cached st)). \<exists>xs. v = JArr xs"
    and fail: "\<forall>n. net n = ConnectionFailed
             \<or> (\<exists>code body. net n = HttpResponse code body \<and> (code \<noteq> 200 \<or> body = None))
             \<or> (\<exists>v. net n = HttpResponse 200 (Some v)
                    \<and> (\<not> truthy v \<or> isl (response_content v)))
             \<or> (\<exists>v content. net n = HttpResponse 200 (Some v) \<and> truthy v
                    \<and> response_content v = Inr content \<and> isl (parse_content loads content))"
    and pd: "pd = \<lparr>ctx_degree = Some (get_degree profile),
                   ctx_year_of_study = Some (get_year_of_study profile),
                   ctx_college = Some (get_college_name profile)\<rparr>"
  shows "\<exists>c5 made5. update_content_cache loads net force now (st, made)
             = (st\<lparr>cached := c5\<lparr>last_updated := Some now\<rparr>\<rparr>, made5)
           \<and> academic_trends c5 = get_fallback_academic_trends (Some (get_degree profile))
           \<and> financial_tips c5 = get_fallback_financial_advice pd
           \<and> wellness_tips c5 = get_fallback_wellness_tips pd
           \<and> career_insights c5 = get_fallback_career_insights pd
           \<and> (\<forall>t \<in> set [''education'', ''finance'', ''wellness'', ''career''].
                 \<exists>v. map_of (news_items c5) (t @ ''_news'') = Some v
                   \<and> fetch_trending_news (cached st) t = Inr v)"
proof -
  let ?agent = "ai_agent st"
  let ?fd = "case financial_planner st of None \<Rightarrow> None
             | Some planner \<Rightarrow> Some (get_all_transactions planner)"
  let ?topics = "[''education'', ''finance'', ''wellness'', ''career'']"
  have rq: "request_content loads ?agent net made' kind = (None, made' @ [kind])" for made' kind
    using request_content_all_fail [OF fail init] .
  define made1 where "made1 = made @ [AcademicTrends]"
  define made2 where
    "made2 = made1 @ (if financial_summary_raises ?fd then [] else [FinancialTips])"
  define made3 where "made3 = made2 @ [WellnessTips]"
  define made4 where "made4 = made3 @ [CareerInsights]"
  have g1: "get_academic_trends loads ?agent net made
      (Some (get_degree profile)) (Some (get_year_of_study profile))
      = (get_fallback_academic_trends (Some (get_degree profile)), made1)"
    using init by (simp add: get_academic_trends_def rq made1_def)
  have g2: "get_financial_advice loads ?agent net made1 pd ?fd
      = (get_fallback_financial_advice pd, made2)"
    using init by (simp add: get_financial_advice_def rq made2_def)
  have g3: "get_wellness_tips loads ?agent net made2 pd = (get_fallback_wellness_tips pd, made3)"
    using init by (simp add: get_wellness_tips_def rq made3_def)
  have g4: "get_career_insights loads ?agent net made3 pd
      = (get_fallback_career_insights pd, made4)"
    using init by (simp add: get_career_insights_def rq made4_def)
  let ?c4 = "(cached st)\<lparr>academic_trends := get_fallback_academic_trends (Some (get_degree profile)),
               financial_tips := get_fallback_financial_advice pd,
               wellness_tips := get_fallback_wellness_tips pd,
               career_insights := get_fallback_career_insights pd\<rparr>"
  have "\<forall>t \<in> set ?topics. sliceable (news_items ?c4) t"
    using news by (auto simp: sliceable_def split: option.splits dest!: map_of_SomeD)
  moreover have "distinct ?topics" by simp
  ultimately obtain c5 where
    un: "update_news loads ?agent net ?topics (?c4, made4) = (None, c5, made4 @ map News ?topics)"
    and c5: "academic_trends c5 = academic_trends ?c4" "financial_tips c5 = financial_tips ?c4"
      "wellness_tips c5 = wellness_tips ?c4" "career_insights c5 = career_insights ?c4"
    and stored: "\<forall>t \<in> set ?topics. \<exists>v. map_of (news_items c5) (t @ ''_news'') = Some v
                  \<and> fetch_trending_news ?c4 t = Inr v"
    using update_news_all_fail [OF init rq, of ?topics ?c4 made4] by blast
  have same: "fetch_trending_news ?c4 t = fetch_trending_news (cached st) t" for t
    by (rule fetch_trending_news_cong) simp
  have attempt: "\<not> (\<not> force \<and> (case last_updated (cached st) of None \<Rightarrow> False
                          | Some updated \<Rightarrow> days (now - updated) < 1))"
    using att by (auto split: option.splits)
  have sel: "ctx_degree pd = Some (get_degree profile)"
    "ctx_year_of_study pd = Some (get_year_of_study profile)"
    by (simp_all add: pd)
  have "update_content_cache loads net force now (st, made)
          = (st\<lparr>cached := c5\<lparr>last_updated := Some now\<rparr>\<rparr>, made4 @ map News ?topics)"
    unfolding update_content_cache_def
    by (simp add: attempt init prof pd [symmetric] sel g1 g2 g3 g4 un Let_def
          del: update_news.simps)
  moreover have "academic_trends c5 = get_fallback_academic_trends (Some (get_degree profile))"
    "financial_tips c5 = get_fallback_financial_advice pd"
    "wellness_tips c5 = get_fallback_wellness_tips pd"
    "career_insights c5 = get_fallback_career_insights pd"
    using c5 by simp_all
  moreover have "\<forall>t \<in> set ?topics. \<exists>v. map_of (news_items c5) (t @ ''_news'') = Some v
                  \<and> fetch_trending_news (cached st) t = Inr v"
    using stored unfolding same .
  ultimately show ?thesis by blast
qed

lemma within_a_second: "t1 \<le> t2 \<Longrightarrow> t2 < t1 + 1000000 \<Longrightarrow> days (t2 - t1) < 1"
  unfolding days_def by (simp add: div_pos_pos_trivial)

lemmas refresh_defs =
  update_content_cache_def get_academic_trends_def get_financial_advice_def
  get_wellness_tips_def get_career_insights_def get_latest_news_def fetch_trending_news_def
  request_content_def make_groq_request_def response_content_def parse_content_def
  search_brackets_def loads_literals_def reply_with_def financial_summary_raises_def
  get_fallback_academic_trends_def get_fallback_financial_advice_def
  get_fallback_wellness_tips_def get_fallback_career_insights_def is_engineering_def
  is_business_def py_str_def get_or_def get_degree_def get_year_of_study_def
  get_college_name_def news_data_def slice_news_tables days_def timedelta_days_def
  example_session_def example_profile_def example_agent_def set_api_key_def
  AIAdvisorAgent_init_def initial_cached_content_def example_now_def Let_def

lemma first_refresh:
  "after_first_refresh =
     (example_session\<lparr>cached :=
        \<lparr>academic_trends = fallback_academic_trends_engineering,
         financial_tips = fallback_financial_advice_engineering,
         wellness_tips = fallback_wellness_tips_engineering,
         career_insights = fallback_career_insights_engineering,
         resources = [],
         news_items = [(''education_news'', JNum 42), (''finance_news'', news_finance),
                       (''wellness_news'', news_wellness), (''career_news'', news_career)],
         last_updated = Some example_now\<rparr>\<rparr>,
      [AcademicTrends, FinancialTips, WellnessTips, CareerInsights, News ''education'',
       News ''finance'', News ''wellness'', News ''career''])"
  unfolding after_first_refresh_def
  by (simp add: refresh_defs odd_service_def)

lemma second_refresh:
  "after_second_refresh =
     (fst after_first_refresh,
      snd after_first_refresh
        @ [AcademicTrends, FinancialTips, WellnessTips, CareerInsights, News ''education''])"
  unfolding after_second_refresh_def first_refresh
  by (simp add: refresh_defs odd_service_def)

lemma third_refresh:
  "after_third_refresh =
     (fst after_second_refresh,
      snd after_second_refresh
        @ [AcademicTrends, FinancialTips, WellnessTips, CareerInsights, News ''education''])"
  unfolding after_third_refresh_def second_refresh first_refresh
  by (simp add: refresh_defs odd_service_def)

text \<open>
  Claim C4, as stated, fails: \<open>update_content_cache\<close> does not know whether a getter
  returned live content or its fallback, and sets \<open>last_updated\<close> after the last
  getter has returned. With an unreachable service the first refresh of a new session
  stores the fallback trends and sets \<open>last_updated\<close> to the clock reading.
\<close>

theorem fallback_refresh_counterexample:
  "last_updated (cached example_session) = None
   \<and> academic_trends (cached (fst (update_content_cache loads_literals unreachable_service
         False example_now (example_session, []))))
     = fallback_academic_trends_engineering
   \<and> last_updated (cached (fst (update_content_cache loads_literals unreachable_service
         False example_now (example_session, []))))
     = Some example_now"
  by (simp add: refresh_defs unreachable_service_def)

text \<open>
  Claim C4, amended. A refresh that is attempted (forced, or \<open>last_updated\<close> null or
  at least a day old) with an initialised agent, a profile in the session and no stored
  news payload other than lists sets \<open>last_updated\<close> to its clock reading, whatever
  the service answers, so that an invocation without \<open>force\<close> less than a day later
  returns at once, with the cache and the requests as they were. When every request
  fails (no connection, a status other than 200, a body that is not JSON, an empty body
  or one without \<open>choices[0].message.content\<close>, or a content on which \<open>json.loads\<close>
  raises), the payloads stored with that \<open>last_updated\<close> are the fallbacks: the static
  lists chosen by the degree for the academic trends, the financial tips, the wellness
  tips and the career insights, and for each of the four news topics what
  \<open>fetch_trending_news\<close> returns for the cache as the refresh found it (the first
  three items of the stored list, or of the static table where none or an empty one is
  stored).
\<close>

theorem refresh_sets_last_updated:
  fixes loads net force now st made profile refreshed pd
  defines "refreshed \<equiv> update_content_cache loads net force now (st, made)"
    and "pd \<equiv> \<lparr>ctx_degree = Some (get_degree profile),
               ctx_year_of_study = Some (get_year_of_study profile),
               ctx_college = Some (get_college_name profile)\<rparr>"
  assumes "force \<or> last_updated (cached st) = None
           \<or> (\<exists>u. last_updated (cached st) = Some u \<and> 1 \<le> days (now - u))"
    and "initialized (ai_agent st)"
    and "ss_student_profile st = Some profile"
    and "\<forall>v \<in> snd ` set (news_items (cached st)). \<exists>xs. v = JArr xs"
  shows "last_updated (cached (fst refreshed)) = Some now
         \<and> (\<forall>later. days (later - now) < 1
               \<longrightarrow> update_content_cache loads net False later refreshed = refreshed)
         \<and> ((\<forall>n. net n = ConnectionFailed
                  \<or> (\<exists>code body. net n = HttpResponse code body \<and> (code \<noteq> 200 \<or> body = None))
                  \<or> (\<exists>v. net n = HttpResponse 200 (Some v)
                         \<and> (\<not> truthy v \<or> isl (response_content v)))
                  \<or> (\<exists>v content. net n = HttpResponse 200 (Some v) \<and> truthy v
                         \<and> response_content v = Inr content
                         \<and> isl (parse_content loads content)))
              \<longrightarrow> academic_trends (cached (fst refreshed))
                    = get_fallback_academic_trends (Some (get_degree profile))
                  \<and> financial_tips (cached (fst refreshed)) = get_fallback_financial_advice pd
                  \<and> wellness_tips (cached (fst refreshed)) = get_fallback_wellness_tips pd
                  \<and> career_insights (cached (fst refreshed)) = get_fallback_career_insights pd
                  \<and> (\<forall>t \<in> set [''education'', ''finance'', ''wellness'', ''career''].
                        \<exists>v. map_of (news_items (cached (fst refreshed))) (t @ ''_news'') = Some v
                          \<and> fetch_trending_news (cached st) t = Inr v))"
proof (intro conjI impI)
  show lu: "last_updated (cached (fst refreshed)) = Some now"
    using update_content_cache_refreshes [OF assms(3-6), of loads net made]
    unfolding refreshed_def by auto
  show "\<forall>later. days (later - now) < 1
               \<longrightarrow> update_content_cache loads net False later refreshed = refreshed"
    using update_content_cache_skips [of False "fst refreshed" now _ loads net "snd refreshed"] lu
    by simp
next
  assume fail: "\<forall>n. net n = ConnectionFailed
                  \<or> (\<exists>code body. net n = HttpResponse code body \<and> (code \<noteq> 200 \<or> body = None))
                  \<or> (\<exists>v. net n = HttpResponse 200 (Some v)
                         \<and> (\<not> truthy v \<or> isl (response_content v)))
                  \<or> (\<exists>v content. net n = HttpResponse 200 (Some v) \<and> truthy v
                         \<and> response_content v = Inr content
                         \<and> isl (parse_content loads content))"
  have "pd = \<lparr>ctx_degree = Some (get_degree profile),
               ctx_year_of_study = Some (get_year_of_study profile),
               ctx_college = Some (get_college_name profile)\<rparr>"
    by (simp add: pd_def)
  from update_content_cache_all_fail [OF assms(3-6) fail this, of made]
  obtain c5 made5 where
    r: "refreshed = (st\<lparr>cached := c5\<lparr>last_updated := Some now\<rparr>\<rparr>, made5)"
    and p: "academic_trends c5 = get_fallback_academic_trends (Some (get_degree profile))"
      "financial_tips c5 = get_fallback_financial_advice pd"
      "wellness_tips c5 = get_fallback_wellness_tips pd"
      "career_insights c5 = get_fallback_career_insights pd"
      "\<forall>t \<in> set [''education'', ''finance'', ''wellness'', ''career''].
          \<exists>v. map_of (news_items c5) (t @ ''_news'') = Some v
            \<and> fetch_trending_news (cached st) t = Inr v"
    unfolding refreshed_def by blast
  show "academic_trends (cached (fst refreshed))
          = get_fallback_academic_trends (Some (get_degree profile))"
    using r p(1) by simp
  show "financial_tips (cached (fst refreshed)) = get_fallback_financial_advice pd"
    using r p(2) by simp
  show "wellness_tips (cached (fst refreshed)) = get_fallback_wellness_tips pd"
    using r p(3) by simp
  show "career_insights (cached (fst refreshed)) = get_fallback_career_insights pd"
    using r p(4) by simp
  show "\<forall>t \<in> set [''education'', ''finance'', ''wellness'', ''career''].
          \<exists>v. map_of (news_items (cached (fst refreshed))) (t @ ''_news'') = Some v
            \<and> fetch_trending_news (cached st) t = Inr v"
    using r p(5) by simp
qed

theorem refresh_sets_last_updated_witness:
  "(False \<or> last_updated (cached example_session) = None
      \<or> (\<exists>u. last_updated (cached example_session) = Some u \<and> 1 \<le> days (example_now - u)))
   \<and> initialized (ai_agent example_session)
   \<and> ss_student_profile example_session = Some example_profile
   \<and> news_items (cached example_session) = []
   \<and> (\<forall>n. unreachable_service n = ConnectionFailed)
   \<and> days (example_now + timedelta_hours 23 - example_now) < 1
   \<and> last_updated (cached (fst (update_content_cache loads_literals unreachable_service
         False example_now (example_session, [])))) = Some example_now
   \<and> update_content_cache loads_literals unreachable_service False
         (example_now + timedelta_hours 23)
         (update_content_cache loads_literals unreachable_service False example_now
            (example_session, []))
       = update_content_cache loads_literals unreachable_service False example_now
           (example_session, [])
   \<and> academic_trends (cached (fst (update_content_cache loads_literals unreachable_service
         False example_now (example_session, [])))) = fallback_academic_trends_engineering
   \<and> financial_tips (cached (fst (update_content_cache loads_literals unreachable_service
         False example_now (example_session, [])))) = fallback_financial_advice_engineering
   \<and> wellness_tips (cached (fst (update_content_cache loads_literals unreachable_service
         False example_now (example_session, [])))) = fallback_wellness_tips_engineering
   \<and> career_insights (cached (fst (update_content_cache loads_literals unreachable_service
         False example_now (example_session, [])))) = fallback_career_insights_engineering
   \<and> map_of (news_items (cached (fst (update_content_cache loads_literals unreachable_service
         False example_now (example_session, []))))) ''education_news'' = Some news_education
   \<and> map_of (news_items (cached (fst (update_content_cache loads_literals unreachable_service
         False example_now (example_session, []))))) ''finance_news'' = Some news_finance
   \<and> map_of (news_items (cached (fst (update_content_cache loads_literals unreachable_service
         False example_now (example_session, []))))) ''wellness_news'' = Some news_wellness
   \<and> map_of (news_items (cached (fst (update_content_cache loads_literals unreachable_service
         False example_now (example_session, []))))) ''career_news'' = Some news_career"
proof -
  let ?refreshed = "update_content_cache loads_literals unreachable_service False example_now
                      (example_session, [])"
  let ?pd = "\<lparr>ctx_degree = Some (get_degree example_profile),
              ctx_year_of_study = Some (get_year_of_study example_profile),
              ctx_college = Some (get_college_name example_profile)\<rparr>"
  have h1: "False \<or> last_updated (cached example_session) = None
      \<or> (\<exists>u. last_updated (cached example_session) = Some u \<and> 1 \<le> days (example_now - u))"
    by (simp add: example_session_def initial_cached_content_def)
  have h2: "initialized (ai_agent example_session)"
    by (simp add: example_session_def example_agent_def set_api_key_def)
  have h3: "ss_student_profile example_session = Some example_profile"
    by (simp add: example_session_def)
  have h0: "news_items (cached example_session) = []"
    by (simp add: example_session_def initial_cached_content_def)
  then have h4: "\<forall>v \<in> snd ` set (news_items (cached example_session)). \<exists>xs. v = JArr xs"
    by simp
  have h5: "\<forall>n. unreachable_service n = ConnectionFailed"
    by (simp add: unreachable_service_def)
  have h6: "days (example_now + timedelta_hours 23 - example_now) < 1"
    by (simp add: days_def timedelta_hours_def)
  note inst = refresh_sets_last_updated [where loads = loads_literals
      and net = unreachable_service and made = "[]", OF h1 h2 h3 h4]
  have c1: "last_updated (cached (fst ?refreshed)) = Some example_now"
    using inst [THEN conjunct1] .
  have c2: "update_content_cache loads_literals unreachable_service False
         (example_now + timedelta_hours 23) ?refreshed = ?refreshed"
    using inst [THEN conjunct2, THEN conjunct1] h6 by blast
  have pre: "\<forall>n. unreachable_service n = ConnectionFailed
      \<or> (\<exists>code body. unreachable_service n = HttpResponse code body
            \<and> (code \<noteq> 200 \<or> body = None))
      \<or> (\<exists>v. unreachable_service n = HttpResponse 200 (Some v)
            \<and> (\<not> truthy v \<or> isl (response_content v)))
      \<or> (\<exists>v content. unreachable_service n = HttpResponse 200 (Some v) \<and> truthy v
            \<and> response_content v = Inr content \<and> isl (parse_content loads_literals content))"
    using h5 by simp
  note stored = inst [THEN conjunct2, THEN conjunct2, THEN mp, OF pre]
  have c3:
    "academic_trends (cached (fst ?refreshed))
       = get_fallback_academic_trends (Some (get_degree example_profile))"
    "financial_tips (cached (fst ?refreshed)) = get_fallback_financial_advice ?pd"
    "wellness_tips (cached (fst ?refreshed)) = get_fallback_wellness_tips ?pd"
    "career_insights (cached (fst ?refreshed)) = get_fallback_career_insights ?pd"
    using stored by blast+
  have c4: "\<forall>t \<in> set [''education'', ''finance'', ''wellness'', ''career''].
          \<exists>v. map_of (news_items (cached (fst ?refreshed))) (t @ ''_news'') = Some v
            \<and> fetch_trending_news (cached example_session) t = Inr v"
    using stored by blast
  have fb: "get_fallback_academic_trends (Some (get_degree example_profile))
              = fallback_academic_trends_engineering"
    "get_fallback_financial_advice ?pd = fallback_financial_advice_engineering"
    "get_fallback_wellness_tips ?pd = fallback_wellness_tips_engineering"
    "get_fallback_career_insights ?pd = fallback_career_insights_engineering"
    by (simp_all add: get_fallback_academic_trends_def get_fallback_financial_advice_def
          get_fallback_wellness_tips_def get_fallback_career_insights_def is_engineering_def
          is_business_def py_str_def get_or_def get_degree_def example_profile_def Let_def)
  have nw: "fetch_trending_news (cached example_session) ''education'' = Inr news_education"
    "fetch_trending_news (cached example_session) ''finance'' = Inr news_finance"
    "fetch_trending_news (cached example_session) ''wellness'' = Inr news_wellness"
    "fetch_trending_news (cached example_session) ''career'' = Inr news_career"
    by (simp_all add: fetch_trending_news_def h0 news_data_def slice_news_tables)
  from c4 nw have c5:
    "map_of (news_items (cached (fst ?refreshed))) ''education_news'' = Some news_education"
    "map_of (news_items (cached (fst ?refreshed))) ''finance_news'' = Some news_finance"
    "map_of (news_items (cached (fst ?refreshed))) ''wellness_news'' = Some news_wellness"
    "map_of (news_items (cached (fst ?refreshed))) ''career_news'' = Some news_career"
    by auto
  show ?thesis
    using h1 h2 h3 h0 h5 h6 c1 c2 c3 c5 unfolding fb by blast
qed

text \<open>
  Claim C9, as stated, fails. In the example the service answers the first request for
  education news with the text \<open>42\<close>, which is stored; every other request fails.
  A day later two refreshes one microsecond apart both find the cache stale: in each,
  the fallback of the news getter slices the stored number, the exception ends the
  refresh before \<open>last_updated\<close> is set, and the four contents before it are
  requested again.
\<close>

theorem consecutive_refresh_counterexample:
  "snd after_first_refresh
     = [AcademicTrends, FinancialTips, WellnessTips, CareerInsights, News ''education'',
        News ''finance'', News ''wellness'', News ''career'']
   \<and> last_updated (cached (fst after_first_refresh)) = Some example_now
   \<and> snd after_second_refresh
     = snd after_first_refresh
       @ [AcademicTrends, FinancialTips, WellnessTips, CareerInsights, News ''education'']
   \<and> last_updated (cached (fst after_second_refresh)) = Some example_now
   \<and> snd after_third_refresh
     = snd after_second_refresh
       @ [AcademicTrends, FinancialTips, WellnessTips, CareerInsights, News ''education'']"
  by (simp add: third_refresh second_refresh) (simp add: first_refresh)

text \<open>
  Claim C9, amended. An invocation without \<open>force\<close> returns at once, with the cache
  and the requests as they were, when \<open>last_updated\<close> is set and less than one whole
  day lies between it and the clock reading. When an invocation without \<open>force\<close>
  finds \<open>last_updated\<close> null or at least a day old, the agent initialised, a profile
  in the session and no stored news payload other than lists, it requests each content
  at most once and sets \<open>last_updated\<close> to its clock reading; a second invocation
  without \<open>force\<close> within the same second makes no request and leaves the cache as
  the first left it.
\<close>

theorem consecutive_refresh_fetches_once:
  assumes "last_updated (cached st) = None
           \<or> (\<exists>u. last_updated (cached st) = Some u \<and> 1 \<le> days (t1 - u))"
    and "initialized (ai_agent st)"
    and "ss_student_profile st = Some profile"
    and "\<forall>v \<in> snd ` set (news_items (cached st)). \<exists>xs. v = JArr xs"
    and "t1 \<le> t2" and "t2 < t1 + 1000000"
  shows "(\<exists>st1 new. update_content_cache loads net False t1 (st, made) = (st1, made @ new)
            \<and> distinct new
            \<and> last_updated (cached st1) = Some t1
            \<and> update_content_cache loads net False t2 (st1, made @ new) = (st1, made @ new))
         \<and> (\<forall>force now s m u.
               \<not> force \<and> last_updated (cached s) = Some u \<and> days (now - u) < 1
               \<longrightarrow> update_content_cache loads net force now (s, m) = (s, m))"
proof
  have att: "False \<or> last_updated (cached st) = None
             \<or> (\<exists>u. last_updated (cached st) = Some u \<and> 1 \<le> days (t1 - u))"
    using assms(1) by simp
  let ?new = "[AcademicTrends]
      @ (if financial_summary_raises
             (case financial_planner st of None \<Rightarrow> None
              | Some planner \<Rightarrow> Some (get_all_transactions planner))
         then [] else [FinancialTips])
      @ [WellnessTips, CareerInsights, News ''education'', News ''finance'',
         News ''wellness'', News ''career'']"
  obtain st1 where r: "update_content_cache loads net False t1 (st, made) = (st1, made @ ?new)"
    and lu: "last_updated (cached st1) = Some t1"
    using update_content_cache_refreshes [OF att assms(2,3,4), of loads net made] by auto
  have "distinct ?new" by simp
  moreover have "update_content_cache loads net False t2 (st1, made @ ?new) = (st1, made @ ?new)"
    using update_content_cache_skips [of False st1 t1 t2] lu within_a_second [OF assms(5,6)]
    by blast
  ultimately show "\<exists>st1 new. update_content_cache loads net False t1 (st, made) = (st1, made @ new)
            \<and> distinct new
            \<and> last_updated (cached st1) = Some t1
            \<and> update_content_cache loads net False t2 (st1, made @ new) = (st1, made @ new)"
    using r lu by blast
next
  show "\<forall>force now s m u.
               \<not> force \<and> last_updated (cached s) = Some u \<and> days (now - u) < 1
               \<longrightarrow> update_content_cache loads net force now (s, m) = (s, m)"
    using update_content_cache_skips by blast
qed

theorem consecutive_refresh_fetches_once_witness:
  "(last_updated (cached example_session) = None
      \<or> (\<exists>u. last_updated (cached example_session) = Some u \<and> 1 \<le> days (example_now - u)))
   \<and> initialized (ai_agent example_session)
   \<and> ss_student_profile example_session = Some example_profile
   \<and> news_items (cached example_session) = []
   \<and> example_now \<le> example_now + 1 \<and> example_now + 1 < example_now + 1000000
   \<and> update_content_cache loads_literals unreachable_service False (example_now + 1)
        (update_content_cache loads_literals unreachable_service False example_now
           (example_session, []))
     = update_content_cache loads_literals unreachable_service False example_now
         (example_session, [])
   \<and> last_updated (cached (fst (update_content_cache loads_literals unreachable_service
         False example_now (example_session, [])))) = Some example_now"
proof -
  have h1: "last_updated (cached example_session) = None
      \<or> (\<exists>u. last_updated (cached example_session) = Some u \<and> 1 \<le> days (example_now - u))"
    by (simp add: example_session_def initial_cached_content_def)
  have h2: "initialized (ai_agent example_session)"
    by (simp add: example_session_def example_agent_def set_api_key_def)
  have h3: "ss_student_profile example_session = Some example_profile"
    by (simp add: example_session_def)
  have h0: "news_items (cached example_session) = []"
    by (simp add: example_session_def initial_cached_content_def)
  then have h4: "\<forall>v \<in> snd ` set (news_items (cached example_session)). \<exists>xs. v = JArr xs"
    by simp
  have h5: "example_now \<le> example_now + 1" and h6: "example_now + 1 < example_now + 1000000"
    by simp_all
  from consecutive_refresh_fetches_once [where loads = loads_literals
      and net = unreachable_service and made = "[]", OF h1 h2 h3 h4 h5 h6]
  obtain st1 new where
    "update_content_cache loads_literals unreachable_service False example_now
       (example_session, []) = (st1, new)"
    "last_updated (cached st1) = Some example_now"
    "update_content_cache loads_literals unreachable_service False (example_now + 1) (st1, new)
       = (st1, new)"
    by auto
  with h0 h1 h2 h3 h5 h6 show ?thesis by simp
qed

end
